theory Spec2Isabelle
  imports Main "HOL-Library.Signed_Division"
begin

section \<open>The starter's HTTP control plane (service/server.go) and startup checks\<close>

text \<open>
  The handlers of \<^verbatim>\<open>service/server.go\<close> run under the service mutex, one request at a
  time; each is a function from the service and the request to the updated service and
  the response that was written. Go's \<^verbatim>\<open>int\<close> is modelled by \<open>int\<close>; the only arithmetic
  of the file is the sum of ports and port offsets, which wraps around as a signed 64-bit
  addition (\<open>go_add\<close>).
\<close>

subsection \<open>Integers and their decimal rendering\<close>

definition go_add :: "int \<Rightarrow> int \<Rightarrow> int" where
  "go_add a b = (a + b + 2 ^ 63) mod 2 ^ 64 - 2 ^ 63"

definition digit :: "nat \<Rightarrow> char" where
  "digit n = ''0123456789'' ! n"

function nat_dec :: "nat \<Rightarrow> string" where
  "nat_dec n = (if n < 10 then [digit n] else nat_dec (n div 10) @ [digit (n mod 10)])"
  by pat_completeness auto
termination
  by (relation "measure id") auto

text \<open>The verb \<^verbatim>\<open>%d\<close> of \<^verbatim>\<open>fmt.Sprintf\<close>.\<close>

definition fmt_d :: "int \<Rightarrow> string" where
  "fmt_d i = (if i < 0 then CHR ''-'' # nat_dec (nat (- i)) else nat_dec (nat i))"

subsection \<open>Wire types\<close>

record HelloRequest =
  SlaveID :: string
  SlaveAddress :: string
  SlavePort :: int
  DataDir_req :: string

record GoodbyeRequest =
  SlaveID_bye :: string

record ServerProcess =
  Type :: string
  IP :: string
  Port_sp :: int
  ProcessID :: int
  ContainerID :: string

record ProcessListResponse =
  ServersStarted :: bool
  Servers :: "ServerProcess list"

subsection \<open>Peers and the registry\<close>

text \<open>
  The struct \<^verbatim>\<open>Peer\<close> is declared outside this file; its fields are the ones the
  handlers read and write (the literal at lines 92-99 names all six).
\<close>

record Peer =
  ID :: string
  Address :: string
  Port :: int
  PortOffset :: int
  DataDir :: string
  HasAgent :: bool

record peers =
  Peers :: "Peer list"
  AgencySize :: int

text \<open>
  Modelled from the spec: \<^verbatim>\<open>PeerByID\<close> is not in this file. The spec has
  \<^verbatim>\<open>peerByID(id) -> Peer?\<close>, an O(n) scan: the first entry with that id, if any.
\<close>

definition PeerByID :: "peers \<Rightarrow> string \<Rightarrow> Peer option" where
  "PeerByID p i = find (\<lambda>x. ID x = i) (Peers p)"

text \<open>
  Modelled from the spec: \<^verbatim>\<open>RemovePeerByID\<close> is not in this file. The spec has
  \<^verbatim>\<open>removePeerByID(id) -> bool\<close>: it drops the entry and does not renumber the
  remaining offsets; no other field of a remaining peer is touched. The result says
  whether an entry was found.
\<close>

definition RemovePeerByID :: "peers \<Rightarrow> string \<Rightarrow> bool \<times> peers" where
  "RemovePeerByID p i =
     (list_ex (\<lambda>x. ID x = i) (Peers p), p\<lparr>Peers := filter (\<lambda>x. ID x \<noteq> i) (Peers p)\<rparr>)"

subsection \<open>The service\<close>

text \<open>
  Modelled from the spec: the constants of \<^verbatim>\<open>s.state\<close> are declared outside this file;
  the handlers only compare with \<^verbatim>\<open>stateSlave\<close>. The spec has the two roles leader
  and follower.
\<close>

datatype State = stateMaster | stateSlave

text \<open>A running server: what \<^verbatim>\<open>ProcessID()\<close> and \<^verbatim>\<open>ContainerID()\<close> answer.\<close>

record Process =
  proc_ProcessID :: int
  proc_ContainerID :: string

record servers =
  agentProc :: "Process option"
  coordinatorProc :: "Process option"
  dbserverProc :: "Process option"

text \<open>
  The fields of \<^verbatim>\<open>Service\<close> that the handlers use. \<open>StartCoordinator\<close> and
  \<open>StartDBserver\<close> are the role flags of the configuration (no handler reads them).
  Two fields stand for effects outside the struct: \<open>runningTriggers\<close> counts the calls of
  \<^verbatim>\<open>startRunningTrigger\<close>, \<open>setupFile\<close> is the content of the setup file on disk.
\<close>

record Service =
  state :: State
  ID_s :: string
  DataDir_s :: string
  AgencySize_s :: int
  MasterPort :: int
  announcePort :: int
  isNetHost :: bool
  allowSameDataDir :: bool
  StartCoordinator :: bool
  StartDBserver :: bool
  myPeers :: peers
  servers_s :: servers
  runningTriggers :: nat
  setupFile :: "peers option"

text \<open>
  Modelled from the spec: \<^verbatim>\<open>startRunningTrigger\<close> is not in this file; the spec has
  "signal the running trigger". The model counts the signals.
\<close>

definition startRunningTrigger :: "Service \<Rightarrow> Service" where
  "startRunningTrigger s = s\<lparr>runningTriggers := Suc (runningTriggers s)\<rparr>"

text \<open>
  Modelled from the spec: \<^verbatim>\<open>saveSetup\<close> is not in this file. The spec has the registry
  snapshot written to the setup file, atomically (temporary file and rename), so a failed
  write leaves the file as it was. The caller gets the error; \<open>werr\<close> is the outcome of
  the write (\<open>None\<close> when it succeeds).
\<close>

definition saveSetup :: "string option \<Rightarrow> Service \<Rightarrow> string option \<times> Service" where
  "saveSetup werr s =
     (case werr of
        None \<Rightarrow> (None, s\<lparr>setupFile := Some (myPeers s)\<rparr>)
      | Some e \<Rightarrow> (Some e, s))"

text \<open>
  Modelled from the spec: \<^verbatim>\<open>needsAgent\<close> is not in this file; the spec has the agent
  on a peer iff that peer has \<open>hasAgent\<close>.
\<close>

definition needsAgent :: "Service \<Rightarrow> bool" where
  "needsAgent s =
     (case PeerByID (myPeers s) (ID_s s) of None \<Rightarrow> False | Some myPeer \<Rightarrow> HasAgent myPeer)"

text \<open>
  Modelled from the spec: the role offsets are constants declared outside this file; the
  spec fixes agent = 1, coordinator = 2, dbserver = 3.
\<close>

definition portOffsetAgent :: int where
  "portOffsetAgent = 1"

definition portOffsetCoordinator :: int where
  "portOffsetCoordinator = 2"

definition portOffsetDBServer :: int where
  "portOffsetDBServer = 3"

subsection \<open>Requests and responses\<close>

text \<open>
  What \<^verbatim>\<open>ioutil.ReadAll\<close> followed by \<^verbatim>\<open>json.Unmarshal\<close> gives for a body: a read
  error, a parse error, or the decoded value.
\<close>

datatype 'a Payload = ReadFailed string | ParseFailed string | Parsed 'a

record 'a Request =
  Method :: string
  Host :: string
  RemoteAddr :: string
  Body :: "'a Payload"

datatype Content =
    NoContent
  | ErrorResponse string
  | PeersJSON peers
  | ProcessListJSON ProcessListResponse
  | Bytes string

record Response =
  StatusCode :: nat
  Location :: "string option"
  Written :: Content

abbreviation StatusOK :: nat where
  "StatusOK \<equiv> 200"

abbreviation StatusTemporaryRedirect :: nat where
  "StatusTemporaryRedirect \<equiv> 307"

abbreviation StatusBadRequest :: nat where
  "StatusBadRequest \<equiv> 400"

abbreviation StatusNotFound :: nat where
  "StatusNotFound \<equiv> 404"

abbreviation StatusMethodNotAllowed :: nat where
  "StatusMethodNotAllowed \<equiv> 405"

abbreviation StatusPreconditionFailed :: nat where
  "StatusPreconditionFailed \<equiv> 412"

abbreviation StatusInternalServerError :: nat where
  "StatusInternalServerError \<equiv> 500"

definition writeError :: "nat \<Rightarrow> string \<Rightarrow> Response" where
  "writeError status message =
     \<lparr>StatusCode = status, Location = None,
      Written = ErrorResponse (if message = '''' then ''Unknown error'' else message)\<rparr>"

text \<open>
  \<^verbatim>\<open>json.Marshal\<close> of the registry, then \<^verbatim>\<open>w.Write\<close>: status 200. The registry and
  the process list hold strings, integers and booleans only, for which \<^verbatim>\<open>json.Marshal\<close>
  returns no error, so the branch that answers 500 is not taken.
\<close>

definition writePeers :: "Service \<Rightarrow> Response" where
  "writePeers s = \<lparr>StatusCode = StatusOK, Location = None, Written = PeersJSON (myPeers s)\<rparr>"

subsection \<open>getHTTPServerPort\<close>

definition getHTTPServerPort :: "Service \<Rightarrow> int \<times> int \<times> string option" where
  "getHTTPServerPort s =
     (let finish = (\<lambda>containerPort.
            (containerPort, if isNetHost s then containerPort else announcePort s, None))
      in if announcePort s = MasterPort s \<and> 0 < length (Peers (myPeers s)) then
           (case PeerByID (myPeers s) (ID_s s) of
              Some myPeer \<Rightarrow> finish (go_add (MasterPort s) (PortOffset myPeer))
            | None \<Rightarrow>
                (0, 0, Some (''No peer information found for ID '' @ [CHR 0x27] @ ID_s s
                              @ [CHR 0x27])))
         else finish (MasterPort s))"

subsection \<open>helloHandler\<close>

text \<open>
  \<^verbatim>\<open>findHost\<close> and \<^verbatim>\<open>GetFreePortOffset\<close> are declared outside this file; the handler
  takes them as parameters. \<open>learnOwnAddress\<close> is the block "Learn my own address"
  (lines 87-102), \<open>helloPost\<close> the body of \<^verbatim>\<open>if r.Method == "POST"\<close> once the
  request is decoded (lines 117-165).
\<close>

definition learnOwnAddress :: "(string \<Rightarrow> string) \<Rightarrow> Service \<Rightarrow> 'a Request \<Rightarrow> Service" where
  "learnOwnAddress findHost s r =
     (if length (Peers (myPeers s)) = 0 then
        (let myself = findHost (Host r);
             hostPort = fst (snd (getHTTPServerPort s))
         in s\<lparr>myPeers :=
              \<lparr>Peers = [\<lparr>ID = ID_s s, Address = myself, Port = hostPort, PortOffset = 0,
                          DataDir = DataDir_s s, HasAgent = True\<rparr>],
               AgencySize = AgencySize_s s\<rparr>\<rparr>)
      else s)"

definition updatePeerData :: "HelloRequest \<Rightarrow> Peer list \<Rightarrow> Peer list" where
  "updatePeerData req ps =
     map (\<lambda>p. if ID p = SlaveID req
              then p\<lparr>Port := SlavePort req, Address := SlaveAddress req,
                     DataDir := DataDir_req req\<rparr>
              else p) ps"

text \<open>The loop of "Check datadir" (lines 131-136): some peer makes it return.\<close>

definition sameDirAsPeer :: "Peer list \<Rightarrow> string \<Rightarrow> HelloRequest \<Rightarrow> bool" where
  "sameDirAsPeer ps slaveAddr req =
     list_ex (\<lambda>p. Address p = slaveAddr \<and> DataDir p = DataDir_req req \<and>
                  ID p \<noteq> SlaveID req) ps"

definition helloPost ::
  "(string \<Rightarrow> string) \<Rightarrow> (peers \<Rightarrow> int) \<Rightarrow> Service \<Rightarrow> string \<Rightarrow> HelloRequest
     \<Rightarrow> Service \<times> Response" where
  "helloPost findHost GetFreePortOffset s remoteAddr req =
     (let slaveAddr = (if SlaveAddress req = '''' then findHost remoteAddr
                       else SlaveAddress req);
          slavePort = SlavePort req
      in if SlaveID req = '''' then (s, writeError StatusBadRequest ''SlaveID must be set.'')
         else if \<not> allowSameDataDir s \<and> sameDirAsPeer (Peers (myPeers s)) slaveAddr req
         then (s, writeError StatusBadRequest ''Cannot use same directory as peer.'')
         else (case PeerByID (myPeers s) (SlaveID req) of
                 Some _ \<Rightarrow>
                   (let s' = s\<lparr>myPeers := (myPeers s)
                                 \<lparr>Peers := updatePeerData req (Peers (myPeers s))\<rparr>\<rparr>
                    in (s', writePeers s'))
               | None \<Rightarrow>
                   (let newPeer = \<lparr>ID = SlaveID req, Address = slaveAddr, Port = slavePort,
                                   PortOffset = GetFreePortOffset (myPeers s),
                                   DataDir = DataDir_req req,
                                   HasAgent = (int (length (Peers (myPeers s)))
                                                 < AgencySize_s s)\<rparr>;
                        s' = s\<lparr>myPeers := (myPeers s)
                                 \<lparr>Peers := Peers (myPeers s) @ [newPeer]\<rparr>\<rparr>;
                        s'' = (if int (length (Peers (myPeers s'))) = AgencySize_s s'
                               then startRunningTrigger s' else s')
                    in (s'', writePeers s''))))"

definition helloHandler ::
  "(string \<Rightarrow> string) \<Rightarrow> (peers \<Rightarrow> int) \<Rightarrow> Service \<Rightarrow> HelloRequest Request
     \<Rightarrow> Service \<times> Response" where
  "helloHandler findHost GetFreePortOffset s r =
     (if state s = stateSlave then
        (case Peers (myPeers s) of
           master # _ \<Rightarrow>
             (s, \<lparr>StatusCode = StatusTemporaryRedirect,
                  Location = Some (''http://'' @ Address master @ '':'' @ fmt_d (Port master)
                                   @ ''/hello''),
                  Written = NoContent\<rparr>)
         | [] \<Rightarrow> (s, writeError StatusBadRequest ''No master known.''))
      else
        (let s1 = learnOwnAddress findHost s r
         in if Method r = ''POST'' then
              (case Body r of
                 ReadFailed e \<Rightarrow>
                   (s1, writeError StatusBadRequest (''Cannot read request body: '' @ e))
               | ParseFailed e \<Rightarrow>
                   (s1, writeError StatusBadRequest (''Cannot parse request body: '' @ e))
               | Parsed req \<Rightarrow> helloPost findHost GetFreePortOffset s1 (RemoteAddr r) req)
            else (s1, writePeers s1)))"

text \<open>
  Two names for the proofs: the address that \<open>helloPost\<close> binds to \<^verbatim>\<open>slaveAddr\<close>, and its
  two checks both passed ("Check request", "Check datadir").
\<close>

definition slaveAddrOf :: "(string \<Rightarrow> string) \<Rightarrow> string \<Rightarrow> HelloRequest \<Rightarrow> string" where
  "slaveAddrOf findHost remoteAddr req =
     (if SlaveAddress req = [] then findHost remoteAddr else SlaveAddress req)"

definition accepted :: "(string \<Rightarrow> string) \<Rightarrow> Service \<Rightarrow> string \<Rightarrow> HelloRequest \<Rightarrow> bool" where
  "accepted findHost s remoteAddr req =
     (SlaveID req \<noteq> [] \<and>
      (allowSameDataDir s \<or>
       \<not> sameDirAsPeer (Peers (myPeers s)) (slaveAddrOf findHost remoteAddr req) req))"

subsection \<open>goodbyeHandler\<close>

definition goodbyeHandler ::
  "string option \<Rightarrow> Service \<Rightarrow> GoodbyeRequest Request \<Rightarrow> Service \<times> Response" where
  "goodbyeHandler werr s r =
     (if Method r \<noteq> ''POST'' then (s, writeError StatusMethodNotAllowed ''POST required'')
      else
        (case Body r of
           ReadFailed e \<Rightarrow>
             (s, writeError StatusBadRequest (''Cannot read request body: '' @ e))
         | ParseFailed e \<Rightarrow>
             (s, writeError StatusBadRequest (''Cannot parse request body: '' @ e))
         | Parsed req \<Rightarrow>
             if SlaveID_bye req = '''' then
               (s, writeError StatusBadRequest ''SlaveID must be set.'')
             else
               (let (removed, ps) = RemovePeerByID (myPeers s) (SlaveID_bye req)
                in if \<not> removed then (s, writeError StatusNotFound ''Unknown ID'')
                   else
                     (let s' = snd (saveSetup werr (s\<lparr>myPeers := ps\<rparr>))
                      in (s', \<lparr>StatusCode = StatusOK, Location = None,
                               Written = Bytes ''BYE''\<rparr>)))))"

subsection \<open>processListHandler\<close>





subsection \<open>The log handlers\<close>

text \<open>
  What \<^verbatim>\<open>os.Open\<close> gives for a path: an error for which \<^verbatim>\<open>os.IsNotExist\<close> holds, any
  other error (the file is there and cannot be opened: no permission, say), or the
  file, of which \<^verbatim>\<open>io.Copy\<close> sends the contents. A path is the list of elements handed
  to \<^verbatim>\<open>filepath.Join\<close>.
\<close>

datatype OpenResult = NotExist | OpenFailed string | Opened string

definition logPath :: "Service \<Rightarrow> Peer \<Rightarrow> string \<Rightarrow> int \<Rightarrow> string list" where
  "logPath s myPeer mode serverPortOffset =
     (let portOffset = PortOffset myPeer;
          myPort = go_add (go_add (MasterPort s) portOffset) serverPortOffset
      in [DataDir_s s, mode @ fmt_d myPort, ''arangod.log''])"

definition logsHandler ::
  "(string list \<Rightarrow> OpenResult) \<Rightarrow> Service \<Rightarrow> string \<Rightarrow> int \<Rightarrow> Response" where
  "logsHandler os_Open s mode serverPortOffset =
     (case PeerByID (myPeers s) (ID_s s) of
        None \<Rightarrow> \<lparr>StatusCode = StatusPreconditionFailed, Location = None, Written = NoContent\<rparr>
      | Some myPeer \<Rightarrow>
          (case os_Open (logPath s myPeer mode serverPortOffset) of
             NotExist \<Rightarrow> \<lparr>StatusCode = StatusOK, Location = None, Written = NoContent\<rparr>
           | OpenFailed e \<Rightarrow>
               \<lparr>StatusCode = StatusInternalServerError, Location = None, Written = Bytes e\<rparr>
           | Opened contents \<Rightarrow>
               \<lparr>StatusCode = StatusOK, Location = None, Written = Bytes contents\<rparr>))"

definition agentLogsHandler :: "(string list \<Rightarrow> OpenResult) \<Rightarrow> Service \<Rightarrow> Response" where
  "agentLogsHandler os_Open s =
     (if needsAgent s then logsHandler os_Open s ''agent'' portOffsetAgent
      else \<lparr>StatusCode = StatusNotFound, Location = None, Written = NoContent\<rparr>)"

definition dbserverLogsHandler :: "(string list \<Rightarrow> OpenResult) \<Rightarrow> Service \<Rightarrow> Response" where
  "dbserverLogsHandler os_Open s = logsHandler os_Open s ''dbserver'' portOffsetDBServer"

definition coordinatorLogsHandler :: "(string list \<Rightarrow> OpenResult) \<Rightarrow> Service \<Rightarrow> Response" where
  "coordinatorLogsHandler os_Open s =
     logsHandler os_Open s ''coordinator'' portOffsetCoordinator"

subsection \<open>The plausibility checks of cmdMainRun\<close>

text \<open>
  The flags that the checks at the head of \<^verbatim>\<open>cmdMainRun\<close> read (lines 550-559).
  \<^verbatim>\<open>log.Fatal\<close> writes the message and leaves the process with exit code 1, so the
  three tests are a chain; \<open>Checked\<close> is control reaching line 560. Go's \<^verbatim>\<open>%\<close>
  truncates towards zero: \<open>smod\<close>.
\<close>

record Flags =
  agencySize :: int
  ownAddress :: string
  dockerImage :: string
  rrPath :: string

datatype Startup = Fatal string | Checked

definition plausibilityChecks :: "Flags \<Rightarrow> Startup" where
  "plausibilityChecks f =
     (if agencySize f smod 2 = 0 \<or> agencySize f \<le> 0 then
        Fatal ''Error: agencySize needs to be a positive, odd number.''
      else if agencySize f = 1 \<and> ownAddress f = '''' then
        Fatal ''Error: if agencySize==1, ownAddress must be given.''
      else if dockerImage f \<noteq> '''' \<and> rrPath f \<noteq> '''' then
        Fatal ''Error: using --dockerImage and --rr is not possible.''
      else Checked)"

fun exitCode :: "Startup \<Rightarrow> nat option" where
  "exitCode (Fatal _) = Some 1"
| "exitCode Checked = None"

subsection \<open>Sequences of hello and goodbye requests\<close>

datatype Op = Hello "HelloRequest Request" | Goodbye "string option" "GoodbyeRequest Request"

fun isHello :: "Op \<Rightarrow> bool" where
  "isHello (Hello _) = True"
| "isHello (Goodbye _ _) = False"

fun step :: "(string \<Rightarrow> string) \<Rightarrow> (peers \<Rightarrow> int) \<Rightarrow> Service \<Rightarrow> Op \<Rightarrow> Service" where
  "step findHost GetFreePortOffset s (Hello r) =
     fst (helloHandler findHost GetFreePortOffset s r)"
| "step findHost GetFreePortOffset s (Goodbye werr r) = fst (goodbyeHandler werr s r)"

definition run ::
  "(string \<Rightarrow> string) \<Rightarrow> (peers \<Rightarrow> int) \<Rightarrow> Service \<Rightarrow> Op list \<Rightarrow> Service" where
  "run findHost GetFreePortOffset s ops = foldl (step findHost GetFreePortOffset) s ops"

text \<open>The number of peers with an agent, and the registry size capped by the agency size.\<close>

definition agentCount :: "Service \<Rightarrow> nat" where
  "agentCount s = length (filter HasAgent (Peers (myPeers s)))"

definition agentQuota :: "Service \<Rightarrow> nat" where
  "agentQuota s = min (length (Peers (myPeers s))) (nat (AgencySize_s s))"

text \<open>
  The agents are the first peers in join order: the flags are \<open>agentQuota\<close> times true,
  then false. The same, peer by peer: the peer at index \<open>i\<close> has an agent iff \<open>i\<close> is
  below the agency size.
\<close>

definition agentsFirst :: "Service \<Rightarrow> bool" where
  "agentsFirst s =
     (map HasAgent (Peers (myPeers s)) =
        replicate (agentQuota s) True
        @ replicate (length (Peers (myPeers s)) - agentQuota s) False)"

definition agentsByIndex :: "Service \<Rightarrow> bool" where
  "agentsByIndex s =
     (map HasAgent (Peers (myPeers s)) =
        map (\<lambda>i. int i < AgencySize_s s) [0..<length (Peers (myPeers s))])"

text \<open>
  A goodbye loses an agent when the registry has more peers than the agency size and the
  goodbye lowers the number of peers with an agent: it has removed a peer with an agent
  while a peer without one stays behind. A hello never does. \<open>neverLosesAgent\<close> says
  that no request of the sequence, each taken in the state it is processed in, loses an
  agent.
\<close>

fun losesAgent :: "Service \<Rightarrow> Op \<Rightarrow> bool" where
  "losesAgent s (Hello r) = False"
| "losesAgent s (Goodbye werr r) =
     (AgencySize_s s < int (length (Peers (myPeers s))) \<and>
      agentCount (fst (goodbyeHandler werr s r)) < agentCount s)"

fun neverLosesAgent ::
  "(string \<Rightarrow> string) \<Rightarrow> (peers \<Rightarrow> int) \<Rightarrow> Service \<Rightarrow> Op list \<Rightarrow> bool" where
  "neverLosesAgent findHost GetFreePortOffset s [] = True"
| "neverLosesAgent findHost GetFreePortOffset s (op # ops) =
     (\<not> losesAgent s op \<and>
      neverLosesAgent findHost GetFreePortOffset (step findHost GetFreePortOffset s op) ops)"

subsection \<open>Example services and requests\<close>

text \<open>
  A starter on base port 4000 with data directory \<open>/data\<close>, no server running, nothing
  triggered and no setup file yet; a peer on port 4000; hello and goodbye requests sent
  from 10.0.0.9 to the starter at 10.0.0.1.
\<close>

definition mkService :: "State \<Rightarrow> string \<Rightarrow> int \<Rightarrow> Peer list \<Rightarrow> Service" where
  "mkService st i n ps =
     \<lparr>state = st, ID_s = i, DataDir_s = ''/data'', AgencySize_s = n, MasterPort = 4000,
      announcePort = 4000, isNetHost = False, allowSameDataDir = False,
      StartCoordinator = True, StartDBserver = True,
      myPeers = \<lparr>Peers = ps, AgencySize = n\<rparr>,
      servers_s = \<lparr>agentProc = None, coordinatorProc = None, dbserverProc = None\<rparr>,
      runningTriggers = 0, setupFile = None\<rparr>"

definition mkPeer :: "string \<Rightarrow> string \<Rightarrow> int \<Rightarrow> bool \<Rightarrow> Peer" where
  "mkPeer i a off ag =
     \<lparr>ID = i, Address = a, Port = 4000, PortOffset = off, DataDir = ''/data'',
      HasAgent = ag\<rparr>"

definition helloGET :: "HelloRequest Request" where
  "helloGET =
     \<lparr>Method = ''GET'', Host = ''10.0.0.1:4000'', RemoteAddr = ''10.0.0.9:5555'',
      Body = Parsed \<lparr>SlaveID = '''', SlaveAddress = '''', SlavePort = 0, DataDir_req = ''''\<rparr>\<rparr>"

definition helloPOST :: "string \<Rightarrow> string \<Rightarrow> string \<Rightarrow> HelloRequest Request" where
  "helloPOST i a d =
     \<lparr>Method = ''POST'', Host = ''10.0.0.1:4000'', RemoteAddr = ''10.0.0.9:5555'',
      Body = Parsed \<lparr>SlaveID = i, SlaveAddress = a, SlavePort = 4000, DataDir_req = d\<rparr>\<rparr>"

definition goodbyePOST :: "string \<Rightarrow> GoodbyeRequest Request" where
  "goodbyePOST i =
     \<lparr>Method = ''POST'', Host = ''10.0.0.1:4000'', RemoteAddr = ''10.0.0.9:5555'',
      Body = Parsed \<lparr>SlaveID_bye = i\<rparr>\<rparr>"

text \<open>A hello POST whose body cannot be read or decoded.\<close>

definition helloBroken :: "HelloRequest Payload \<Rightarrow> HelloRequest Request" where
  "helloBroken b =
     \<lparr>Method = ''POST'', Host = ''10.0.0.1:4000'', RemoteAddr = ''10.0.0.9:5555'', Body = b\<rparr>"

text \<open>Stand-ins for \<^verbatim>\<open>findHost\<close> (the text before the first colon) and
  \<^verbatim>\<open>GetFreePortOffset\<close> (five ports a peer).\<close>

definition exFindHost :: "string \<Rightarrow> string" where
  "exFindHost a = takeWhile (\<lambda>c. c \<noteq> CHR '':'') a"

definition exFreePortOffset :: "peers \<Rightarrow> int" where
  "exFreePortOffset p = 5 * int (length (Peers p))"

text \<open>The starter \<open>A\<close> with its three servers running, with and without an agent.\<close>

definition exRunning :: "bool \<Rightarrow> Service" where
  "exRunning ag =
     (mkService stateMaster ''A'' 3 [mkPeer ''A'' ''10.0.0.1'' 0 ag])
       \<lparr>servers_s :=
          \<lparr>agentProc = Some \<lparr>proc_ProcessID = 101, proc_ContainerID = ''''\<rparr>,
           coordinatorProc = Some \<lparr>proc_ProcessID = 102, proc_ContainerID = ''''\<rparr>,
           dbserverProc = Some \<lparr>proc_ProcessID = 103, proc_ContainerID = ''''\<rparr>\<rparr>\<rparr>"

text \<open>The leader \<open>A\<close> before the first hello, with \<open>B\<close> joined, and with \<open>B\<close> and \<open>C\<close> joined.\<close>

definition exLeader :: "int \<Rightarrow> Service" where
  "exLeader n = mkService stateMaster ''A'' n []"

definition exTwo :: Service where
  "exTwo =
     mkService stateMaster ''A'' 3
       [mkPeer ''A'' ''10.0.0.1'' 0 True, mkPeer ''B'' ''10.0.0.2'' 5 True]"

definition exThree :: Service where
  "exThree =
     mkService stateMaster ''A'' 3
       [mkPeer ''A'' ''10.0.0.1'' 0 True, mkPeer ''B'' ''10.0.0.2'' 5 True,
        mkPeer ''C'' ''10.0.0.3'' 10 True]"

text \<open>Three starters join the leader one after the other; then the leader's own entry is
  removed by a goodbye.\<close>

definition exJoins :: "Op list" where
  "exJoins =
     [Hello (helloPOST ''B'' ''10.0.0.2'' ''/data''),
      Hello (helloPOST ''C'' ''10.0.0.3'' ''/data''),
      Hello (helloPOST ''D'' ''10.0.0.4'' ''/data'')]"

definition exJoinsLeave :: "Op list" where
  "exJoinsLeave = exJoins @ [Goodbye None (goodbyePOST ''A'')]"

text \<open>After the three joins \<open>D\<close>, which has no agent, leaves and \<open>E\<close> joins.\<close>

definition exRejoin :: "Op list" where
  "exRejoin =
     exJoins @ [Goodbye None (goodbyePOST ''D''),
                Hello (helloPOST ''E'' ''10.0.0.5'' ''/data'')]"

text \<open>
  A data directory where the coordinator has written a log, the agent has not yet, and
  the log of the dbserver is there but may not be read.
\<close>

definition exLogs :: "string list \<Rightarrow> OpenResult" where
  "exLogs path =
     (if path = [''/data'', ''coordinator4002'', ''arangod.log''] then Opened ''ready''
      else if path = [''/data'', ''dbserver4003'', ''arangod.log'']
      then OpenFailed ''permission denied''
      else NotExist)"

section \<open>Properties\<close>

subsection \<open>Arithmetic and lookups\<close>

lemma go_add_in_range:
  "- (2 ^ 63) \<le> a + b \<Longrightarrow> a + b < 2 ^ 63 \<Longrightarrow> go_add a b = a + b"
  by (simp add: go_add_def)

lemma smod_two_eq_zero_iff: "(k smod 2 = 0) = even k" for k :: int
  by (auto simp add: signed_modulo_int_def sgn_if split: if_splits)


lemma PeerByID_None_iff: "(PeerByID p i = None) = (\<forall>x \<in> set (Peers p). ID x \<noteq> i)"
  by (auto simp add: PeerByID_def find_None_iff)

lemma RemovePeerByID_found: "fst (RemovePeerByID p i) = (PeerByID p i \<noteq> None)"
  by (auto simp add: RemovePeerByID_def PeerByID_None_iff list_ex_iff)

lemma RemovePeerByID_Peers:
  "Peers (snd (RemovePeerByID p i)) = filter (\<lambda>x. ID x \<noteq> i) (Peers p)"
  by (simp add: RemovePeerByID_def)

lemma RemovePeerByID_gone: "PeerByID (snd (RemovePeerByID p i)) i = None"
  by (simp add: PeerByID_None_iff RemovePeerByID_Peers)

lemma writeError_status [simp]: "StatusCode (writeError c m) = c"
  by (simp add: writeError_def)

lemma writePeers_status [simp]: "StatusCode (writePeers s) = 200"
  by (simp add: writePeers_def)

subsection \<open>The block "Learn my own address"\<close>

lemma getHTTPServerPort_empty:
  "Peers (myPeers s) = [] \<Longrightarrow>
   fst (snd (getHTTPServerPort s)) = (if isNetHost s then MasterPort s else announcePort s)"
  by (simp add: getHTTPServerPort_def)

lemma learnOwnAddress_nonempty:
  "Peers (myPeers s) \<noteq> [] \<Longrightarrow> learnOwnAddress findHost s r = s"
  by (simp add: learnOwnAddress_def)

lemma learnOwnAddress_empty:
  "Peers (myPeers s) = [] \<Longrightarrow>
   myPeers (learnOwnAddress findHost s r) =
     \<lparr>Peers = [\<lparr>ID = ID_s s, Address = findHost (Host r),
                 Port = (if isNetHost s then MasterPort s else announcePort s),
                 PortOffset = 0, DataDir = DataDir_s s, HasAgent = True\<rparr>],
      AgencySize = AgencySize_s s\<rparr>"
  by (simp add: learnOwnAddress_def getHTTPServerPort_empty Let_def)

lemma learnOwnAddress_frame:
  "state (learnOwnAddress findHost s r) = state s"
  "ID_s (learnOwnAddress findHost s r) = ID_s s"
  "AgencySize_s (learnOwnAddress findHost s r) = AgencySize_s s"
  "allowSameDataDir (learnOwnAddress findHost s r) = allowSameDataDir s"
  "runningTriggers (learnOwnAddress findHost s r) = runningTriggers s"
  "setupFile (learnOwnAddress findHost s r) = setupFile s"
  by (simp_all add: learnOwnAddress_def Let_def)

lemma learnOwnAddress_Peers_nonempty:
  "Peers (myPeers (learnOwnAddress findHost s r)) \<noteq> []"
  by (simp add: learnOwnAddress_def Let_def)

subsection \<open>The three outcomes of a hello POST\<close>

lemma helloHandler_leader:
  "state s \<noteq> stateSlave \<Longrightarrow>
   helloHandler findHost GetFreePortOffset s r =
     (if Method r = ''POST'' then
        (case Body r of
           ReadFailed e \<Rightarrow>
             (learnOwnAddress findHost s r,
              writeError 400 (''Cannot read request body: '' @ e))
         | ParseFailed e \<Rightarrow>
             (learnOwnAddress findHost s r,
              writeError 400 (''Cannot parse request body: '' @ e))
         | Parsed req \<Rightarrow>
             helloPost findHost GetFreePortOffset (learnOwnAddress findHost s r)
               (RemoteAddr r) req)
      else (learnOwnAddress findHost s r, writePeers (learnOwnAddress findHost s r)))"
  by (simp add: helloHandler_def Let_def)

lemma helloPost_rejected:
  "\<not> accepted findHost s remoteAddr req \<Longrightarrow>
   fst (helloPost findHost GetFreePortOffset s remoteAddr req) = s \<and>
   StatusCode (snd (helloPost findHost GetFreePortOffset s remoteAddr req)) = 400"
  by (auto simp add: accepted_def slaveAddrOf_def helloPost_def Let_def)

lemma helloPost_update:
  "accepted findHost s remoteAddr req \<Longrightarrow> PeerByID (myPeers s) (SlaveID req) \<noteq> None \<Longrightarrow>
   helloPost findHost GetFreePortOffset s remoteAddr req =
     (s\<lparr>myPeers := (myPeers s)\<lparr>Peers := updatePeerData req (Peers (myPeers s))\<rparr>\<rparr>,
      writePeers (s\<lparr>myPeers := (myPeers s)\<lparr>Peers := updatePeerData req (Peers (myPeers s))\<rparr>\<rparr>))"
  by (auto simp add: accepted_def slaveAddrOf_def helloPost_def Let_def)

lemma helloPost_append:
  "accepted findHost s remoteAddr req \<Longrightarrow> PeerByID (myPeers s) (SlaveID req) = None \<Longrightarrow>
   Peers (myPeers (fst (helloPost findHost GetFreePortOffset s remoteAddr req))) =
     Peers (myPeers s) @
       [\<lparr>ID = SlaveID req, Address = slaveAddrOf findHost remoteAddr req,
         Port = SlavePort req, PortOffset = GetFreePortOffset (myPeers s),
         DataDir = DataDir_req req,
         HasAgent = (int (length (Peers (myPeers s))) < AgencySize_s s)\<rparr>]
   \<and> runningTriggers (fst (helloPost findHost GetFreePortOffset s remoteAddr req)) =
       runningTriggers s + (if int (length (Peers (myPeers s))) + 1 = AgencySize_s s then 1 else 0)
   \<and> StatusCode (snd (helloPost findHost GetFreePortOffset s remoteAddr req)) = 200"
  by (auto simp add: accepted_def slaveAddrOf_def helloPost_def Let_def startRunningTrigger_def)

lemma helloPost_accepted_iff:
  "(StatusCode (snd (helloPost findHost GetFreePortOffset s remoteAddr req)) = 200) =
     accepted findHost s remoteAddr req"
proof (cases "accepted findHost s remoteAddr req")
  case False
  then show ?thesis by (simp add: helloPost_rejected)
next
  case True
  then show ?thesis
    by (cases "PeerByID (myPeers s) (SlaveID req)") (simp_all add: helloPost_update helloPost_append)
qed

lemma updatePeerData_length [simp]: "length (updatePeerData req ps) = length ps"
  by (simp add: updatePeerData_def)

lemma updatePeerData_frame:
  "map ID (updatePeerData req ps) = map ID ps"
  "map PortOffset (updatePeerData req ps) = map PortOffset ps"
  "map HasAgent (updatePeerData req ps) = map HasAgent ps"
  by (simp_all add: updatePeerData_def)

lemma updatePeerData_hit:
  "p \<in> set (updatePeerData req ps) \<Longrightarrow> ID p = SlaveID req \<Longrightarrow>
   Address p = SlaveAddress req \<and> Port p = SlavePort req \<and> DataDir p = DataDir_req req"
  by (auto simp add: updatePeerData_def split: if_splits)

lemma updatePeerData_miss:
  "p \<in> set (updatePeerData req ps) \<Longrightarrow> ID p \<noteq> SlaveID req \<Longrightarrow> p \<in> set ps"
  by (auto simp add: updatePeerData_def split: if_splits)

lemma helloPost_frame:
  "state (fst (helloPost findHost GetFreePortOffset s remoteAddr req)) = state s"
  "ID_s (fst (helloPost findHost GetFreePortOffset s remoteAddr req)) = ID_s s"
  "AgencySize_s (fst (helloPost findHost GetFreePortOffset s remoteAddr req)) = AgencySize_s s"
  "allowSameDataDir (fst (helloPost findHost GetFreePortOffset s remoteAddr req)) =
     allowSameDataDir s"
  "setupFile (fst (helloPost findHost GetFreePortOffset s remoteAddr req)) = setupFile s"
  by (simp_all add: helloPost_def Let_def startRunningTrigger_def split: option.splits)

lemma helloHandler_frame:
  "state (fst (helloHandler findHost GetFreePortOffset s r)) = state s"
  "ID_s (fst (helloHandler findHost GetFreePortOffset s r)) = ID_s s"
  "AgencySize_s (fst (helloHandler findHost GetFreePortOffset s r)) = AgencySize_s s"
  "allowSameDataDir (fst (helloHandler findHost GetFreePortOffset s r)) = allowSameDataDir s"
  "setupFile (fst (helloHandler findHost GetFreePortOffset s r)) = setupFile s"
  by (simp_all add: helloHandler_def Let_def helloPost_frame learnOwnAddress_frame
        split: list.splits Payload.splits)

text \<open>What a hello does to the registry of the leader: nothing, an update or an append.\<close>

lemma hello_leader_cases:
  assumes "state s \<noteq> stateSlave"
  obtains
    (unchanged)
      "fst (helloHandler findHost GetFreePortOffset s r) = learnOwnAddress findHost s r"
      "Method r = ''POST'' \<Longrightarrow>
         StatusCode (snd (helloHandler findHost GetFreePortOffset s r)) = 400"
  | (update) req where
      "Method r = ''POST''" "Body r = Parsed req"
      "accepted findHost (learnOwnAddress findHost s r) (RemoteAddr r) req"
      "PeerByID (myPeers (learnOwnAddress findHost s r)) (SlaveID req) \<noteq> None"
      "helloHandler findHost GetFreePortOffset s r =
         ((learnOwnAddress findHost s r)
            \<lparr>myPeers := (myPeers (learnOwnAddress findHost s r))
               \<lparr>Peers := updatePeerData req (Peers (myPeers (learnOwnAddress findHost s r)))\<rparr>\<rparr>,
          writePeers ((learnOwnAddress findHost s r)
            \<lparr>myPeers := (myPeers (learnOwnAddress findHost s r))
               \<lparr>Peers := updatePeerData req
                  (Peers (myPeers (learnOwnAddress findHost s r)))\<rparr>\<rparr>))"
  | (append) req where
      "Method r = ''POST''" "Body r = Parsed req"
      "accepted findHost (learnOwnAddress findHost s r) (RemoteAddr r) req"
      "PeerByID (myPeers (learnOwnAddress findHost s r)) (SlaveID req) = None"
      "Peers (myPeers (fst (helloHandler findHost GetFreePortOffset s r))) =
         Peers (myPeers (learnOwnAddress findHost s r)) @
           [\<lparr>ID = SlaveID req, Address = slaveAddrOf findHost (RemoteAddr r) req,
             Port = SlavePort req,
             PortOffset = GetFreePortOffset (myPeers (learnOwnAddress findHost s r)),
             DataDir = DataDir_req req,
             HasAgent = (int (length (Peers (myPeers (learnOwnAddress findHost s r))))
                           < AgencySize_s s)\<rparr>]"
      "runningTriggers (fst (helloHandler findHost GetFreePortOffset s r)) =
         runningTriggers s +
           (if int (length (Peers (myPeers (learnOwnAddress findHost s r)))) + 1 = AgencySize_s s
            then 1 else 0)"
      "StatusCode (snd (helloHandler findHost GetFreePortOffset s r)) = 200"
proof (cases "Method r = ''POST''")
  case False
  with assms show ?thesis
    by (intro unchanged) (simp_all add: helloHandler_leader)
next
  case post: True
  show ?thesis
  proof (cases "Body r")
    case (ReadFailed e)
    with assms post show ?thesis
      by (intro unchanged) (simp_all add: helloHandler_leader)
  next
    case (ParseFailed e)
    with assms post show ?thesis
      by (intro unchanged) (simp_all add: helloHandler_leader)
  next
    case (Parsed req)
    let ?s1 = "learnOwnAddress findHost s r"
    have eq: "helloHandler findHost GetFreePortOffset s r =
        helloPost findHost GetFreePortOffset ?s1 (RemoteAddr r) req"
      using assms post Parsed by (simp add: helloHandler_leader)
    show ?thesis
    proof (cases "accepted findHost ?s1 (RemoteAddr r) req")
      case False
      then show ?thesis
        using helloPost_rejected [of findHost ?s1 "RemoteAddr r" req GetFreePortOffset]
        by (intro unchanged) (simp_all add: eq)
    next
      case acc: True
      show ?thesis
      proof (cases "PeerByID (myPeers ?s1) (SlaveID req) = None")
        case True
        with acc post Parsed show ?thesis
          using helloPost_append [of findHost ?s1 "RemoteAddr r" req GetFreePortOffset]
          by (intro append [of req]) (simp_all add: eq learnOwnAddress_frame)
      next
        case False
        with acc post Parsed show ?thesis
          using helloPost_update [of findHost ?s1 "RemoteAddr r" req GetFreePortOffset]
          by (intro update [of req]) (simp_all add: eq)
      qed
    qed
  qed
qed

lemma sameDirAsPeer_append:
  "sameDirAsPeer (ps @ [p]) a req =
     (sameDirAsPeer ps a req \<or>
      Address p = a \<and> DataDir p = DataDir_req req \<and> ID p \<noteq> SlaveID req)"
  by (auto simp add: sameDirAsPeer_def list_ex_iff)

lemma sameDirAsPeer_update:
  "sameDirAsPeer (updatePeerData req ps) a req \<Longrightarrow> sameDirAsPeer ps a req"
  by (auto simp add: sameDirAsPeer_def list_ex_iff dest: updatePeerData_miss)

lemma PeerByID_update:
  "PeerByID q i \<noteq> None \<Longrightarrow> PeerByID (q\<lparr>Peers := updatePeerData req (Peers q)\<rparr>) i \<noteq> None"
proof -
  assume "PeerByID q i \<noteq> None"
  then have "i \<in> set (map ID (Peers q))"
    by (auto simp add: PeerByID_None_iff)
  then have "i \<in> set (map ID (updatePeerData req (Peers q)))"
    by (simp only: updatePeerData_frame)
  then show ?thesis
    by (auto simp add: PeerByID_None_iff)
qed

text \<open>After a hello that was accepted, the same request is accepted again and finds its id.\<close>

lemma hello_accepted_again:
  assumes "state s \<noteq> stateSlave" and "Method r = ''POST''"
    and "helloHandler findHost GetFreePortOffset s r = (s1, resp1)"
    and "StatusCode resp1 = 200"
  obtains req where "Body r = Parsed req"
    and "state s1 \<noteq> stateSlave" and "Peers (myPeers s1) \<noteq> []"
    and "accepted findHost s1 (RemoteAddr r) req"
    and "PeerByID (myPeers s1) (SlaveID req) \<noteq> None"
proof -
  let ?s0 = "learnOwnAddress findHost s r"
  have st: "state s1 \<noteq> stateSlave" and allow: "allowSameDataDir s1 = allowSameDataDir ?s0"
    using assms(1,3) helloHandler_frame(1,4) [of findHost GetFreePortOffset s r]
    by (simp_all add: learnOwnAddress_frame)
  from assms(1) show ?thesis
  proof (cases rule: hello_leader_cases [of s findHost GetFreePortOffset r])
    case unchanged
    with assms(2,3,4) show ?thesis by simp
  next
    case (update req)
    have peers1: "myPeers s1 = (myPeers ?s0)\<lparr>Peers := updatePeerData req (Peers (myPeers ?s0))\<rparr>"
      using update(5) assms(3) by auto
    have "Peers (myPeers s1) \<noteq> []"
      using learnOwnAddress_Peers_nonempty [of findHost s r]
      by (simp add: peers1 updatePeerData_def)
    moreover have "accepted findHost s1 (RemoteAddr r) req"
      using update(3) sameDirAsPeer_update [of req "Peers (myPeers ?s0)"]
      by (auto simp add: accepted_def allow peers1)
    moreover have "PeerByID (myPeers s1) (SlaveID req) \<noteq> None"
      unfolding peers1 using update(4) by (rule PeerByID_update)
    ultimately show ?thesis
      using that [of req] update(2) st by simp
  next
    case (append req)
    let ?new = "\<lparr>ID = SlaveID req, Address = slaveAddrOf findHost (RemoteAddr r) req,
             Port = SlavePort req, PortOffset = GetFreePortOffset (myPeers ?s0),
             DataDir = DataDir_req req,
             HasAgent = (int (length (Peers (myPeers ?s0))) < AgencySize_s s)\<rparr>"
    have peers1: "Peers (myPeers s1) = Peers (myPeers ?s0) @ [?new]"
      using append(5) assms(3) by simp
    have "Peers (myPeers s1) \<noteq> []"
      by (simp add: peers1)
    moreover have "accepted findHost s1 (RemoteAddr r) req"
      using append(3) by (simp add: accepted_def allow peers1 sameDirAsPeer_append)
    moreover have "PeerByID (myPeers s1) (SlaveID req) \<noteq> None"
      by (simp add: PeerByID_None_iff peers1)
    ultimately show ?thesis
      using that [of req] append(2) st by simp
  qed
qed

subsection \<open>Sequences of requests\<close>

lemma goodbyeHandler_frame:
  "AgencySize_s (fst (goodbyeHandler werr s r)) = AgencySize_s s"
  by (simp add: goodbyeHandler_def saveSetup_def RemovePeerByID_def Let_def
        split: Payload.splits option.splits)

lemma goodbyeHandler_Peers:
  "Peers (myPeers (fst (goodbyeHandler werr s r))) = Peers (myPeers s)
   \<or> (\<exists>i. Peers (myPeers (fst (goodbyeHandler werr s r))) =
            filter (\<lambda>p. ID p \<noteq> i) (Peers (myPeers s)))"
  by (auto simp add: goodbyeHandler_def saveSetup_def RemovePeerByID_def Let_def
        split: Payload.splits option.splits)

lemma step_AgencySize: "AgencySize_s (step findHost GetFreePortOffset s op) = AgencySize_s s"
  by (cases op) (simp_all add: helloHandler_frame goodbyeHandler_frame)

lemma run_AgencySize: "AgencySize_s (run findHost GetFreePortOffset s ops) = AgencySize_s s"
  unfolding run_def by (induction ops arbitrary: s) (simp_all add: step_AgencySize)

lemma run_snoc:
  "run findHost GetFreePortOffset s (ops @ [op]) =
     step findHost GetFreePortOffset (run findHost GetFreePortOffset s ops) op"
  by (simp add: run_def)

text \<open>The number of agents never exceeds the agency size.\<close>

lemma agentCount_le_length: "agentCount s \<le> length (Peers (myPeers s))"
  by (simp add: agentCount_def)

lemma agentCount_eq:
  "agentCount s = length (filter id (map HasAgent (Peers (myPeers s))))"
  by (simp add: agentCount_def filter_map comp_def)

lemma agentCount_flags:
  "map HasAgent (Peers (myPeers s')) = map HasAgent (Peers (myPeers s)) \<Longrightarrow>
   agentCount s' = agentCount s"
  by (simp only: agentCount_eq)

lemma learnOwnAddress_bound:
  assumes "1 \<le> AgencySize_s s" and "agentCount s \<le> nat (AgencySize_s s)"
  shows "agentCount (learnOwnAddress findHost s r) \<le> nat (AgencySize_s s)"
proof (cases "Peers (myPeers s) = []")
  case True
  then show ?thesis
    using assms(1) by (simp add: agentCount_def learnOwnAddress_empty)
next
  case False
  then show ?thesis
    using assms(2) by (simp add: learnOwnAddress_nonempty)
qed

lemma hello_bound:
  assumes "1 \<le> AgencySize_s s" and "agentCount s \<le> nat (AgencySize_s s)"
  shows "agentCount (fst (helloHandler findHost GetFreePortOffset s r)) \<le> nat (AgencySize_s s)"
proof (cases "state s = stateSlave")
  case True
  then have "fst (helloHandler findHost GetFreePortOffset s r) = s"
    by (simp add: helloHandler_def split: list.splits)
  with assms(2) show ?thesis by simp
next
  case False
  let ?s1 = "learnOwnAddress findHost s r"
  have s1: "agentCount ?s1 \<le> nat (AgencySize_s s)"
    using assms by (rule learnOwnAddress_bound)
  from False show ?thesis
  proof (cases rule: hello_leader_cases [of s findHost GetFreePortOffset r])
    case unchanged
    with s1 show ?thesis by simp
  next
    case (update req)
    then have "map HasAgent (Peers (myPeers (fst (helloHandler findHost GetFreePortOffset s r))))
        = map HasAgent (Peers (myPeers ?s1))"
      by (simp add: updatePeerData_frame)
    then have "agentCount (fst (helloHandler findHost GetFreePortOffset s r)) = agentCount ?s1"
      by (rule agentCount_flags)
    with s1 show ?thesis by simp
  next
    case (append req)
    have "agentCount (fst (helloHandler findHost GetFreePortOffset s r)) =
        agentCount ?s1 + (if int (length (Peers (myPeers ?s1))) < AgencySize_s s then 1 else 0)"
      by (simp add: agentCount_def append(5))
    then show ?thesis
      using s1 agentCount_le_length [of ?s1] by (auto split: if_splits)
  qed
qed

lemma goodbye_bound:
  assumes "agentCount s \<le> nat (AgencySize_s s)"
  shows "agentCount (fst (goodbyeHandler werr s r)) \<le> nat (AgencySize_s s)"
proof -
  have "length (filter HasAgent (filter (\<lambda>p. ID p \<noteq> i) ps)) \<le> length (filter HasAgent ps)"
    for i and ps :: "Peer list"
    by (induction ps) simp_all
  then have "agentCount (fst (goodbyeHandler werr s r)) \<le> agentCount s"
    using goodbyeHandler_Peers [of werr s r] by (auto simp add: agentCount_def)
  with assms show ?thesis by simp
qed

lemma step_bound:
  assumes "1 \<le> AgencySize_s s" and "agentCount s \<le> nat (AgencySize_s s)"
  shows "agentCount (step findHost GetFreePortOffset s op) \<le> nat (AgencySize_s s)"
  using assms by (cases op) (simp_all add: hello_bound goodbye_bound)

lemma run_bound:
  assumes "1 \<le> AgencySize_s s" and "agentCount s \<le> nat (AgencySize_s s)"
  shows "agentCount (run findHost GetFreePortOffset s ops) \<le> nat (AgencySize_s s)"
proof (induction ops rule: rev_induct)
  case Nil
  with assms(2) show ?case by (simp add: run_def)
next
  case (snoc op ops)
  have "1 \<le> AgencySize_s (run findHost GetFreePortOffset s ops)"
    using assms(1) by (simp add: run_AgencySize)
  moreover have "agentCount (run findHost GetFreePortOffset s ops)
      \<le> nat (AgencySize_s (run findHost GetFreePortOffset s ops))"
    using snoc.IH by (simp add: run_AgencySize)
  ultimately have "agentCount (step findHost GetFreePortOffset
        (run findHost GetFreePortOffset s ops) op)
      \<le> nat (AgencySize_s (run findHost GetFreePortOffset s ops))"
    by (rule step_bound)
  then show ?case
    by (simp add: run_snoc run_AgencySize)
qed

text \<open>A hello keeps the agents at the indices below the agency size.\<close>

lemma learnOwnAddress_byIndex:
  assumes "1 \<le> AgencySize_s s" and "agentsByIndex s"
  shows "agentsByIndex (learnOwnAddress findHost s r)"
proof (cases "Peers (myPeers s) = []")
  case True
  then show ?thesis
    using assms(1) by (simp add: agentsByIndex_def learnOwnAddress_empty learnOwnAddress_frame)
next
  case False
  then show ?thesis
    using assms(2) by (simp add: learnOwnAddress_nonempty)
qed

lemma hello_byIndex:
  assumes "1 \<le> AgencySize_s s" and "agentsByIndex s"
  shows "agentsByIndex (fst (helloHandler findHost GetFreePortOffset s r))"
proof (cases "state s = stateSlave")
  case True
  then have "fst (helloHandler findHost GetFreePortOffset s r) = s"
    by (simp add: helloHandler_def split: list.splits)
  with assms(2) show ?thesis by simp
next
  case False
  let ?s1 = "learnOwnAddress findHost s r"
  let ?s' = "fst (helloHandler findHost GetFreePortOffset s r)"
  have s1: "agentsByIndex ?s1"
    using assms by (rule learnOwnAddress_byIndex)
  have size: "AgencySize_s ?s' = AgencySize_s s" "AgencySize_s ?s1 = AgencySize_s s"
    by (simp_all add: helloHandler_frame learnOwnAddress_frame)
  from False show ?thesis
  proof (cases rule: hello_leader_cases [of s findHost GetFreePortOffset r])
    case unchanged
    with s1 show ?thesis by simp
  next
    case (update req)
    then have "Peers (myPeers ?s') = updatePeerData req (Peers (myPeers ?s1))"
      by simp
    then show ?thesis
      using s1 by (simp add: agentsByIndex_def size updatePeerData_frame)
  next
    case (append req)
    then show ?thesis
      using s1 by (simp add: agentsByIndex_def size)
  qed
qed

lemma flags_by_index:
  "map (\<lambda>i. int i < a) [0..<n] =
     replicate (min n (nat a)) True @ replicate (n - min n (nat a)) False"
proof (induction n)
  case 0
  show ?case by simp
next
  case (Suc n)
  show ?case
  proof (cases "int n < a")
    case True
    then have "min (Suc n) (nat a) = Suc n" "min n (nat a) = n"
      by simp_all
    with Suc True show ?thesis
      by (simp add: replicate_append_same)
  next
    case False
    then have "min (Suc n) (nat a) = min n (nat a)" "min n (nat a) \<le> n"
      by simp_all
    with Suc False show ?thesis
      by (simp add: Suc_diff_le replicate_append_same)
  qed
qed

lemma agentsFirst_count: "agentsFirst s \<Longrightarrow> agentCount s = agentQuota s"
proof -
  assume "agentsFirst s"
  then have flags: "map HasAgent (Peers (myPeers s)) =
      replicate (agentQuota s) True
      @ replicate (length (Peers (myPeers s)) - agentQuota s) False"
    by (simp add: agentsFirst_def)
  have "agentCount s = length (filter id (map HasAgent (Peers (myPeers s))))"
    by (rule agentCount_eq)
  also have "\<dots> = agentQuota s"
    by (simp add: flags)
  finally show ?thesis .
qed

lemma agentsByIndex_eq_first: "agentsByIndex s = agentsFirst s"
  by (simp add: agentsByIndex_def agentsFirst_def agentQuota_def flags_by_index)

lemma sorted_flags_shape:
  "sorted (map Not fl) \<Longrightarrow> \<exists>a c. fl = replicate a True @ replicate c False"
proof (induction fl)
  case Nil
  show ?case by simp
next
  case (Cons b fl)
  have both: "(\<forall>y \<in> set (map Not fl). Not b \<le> y) \<and> sorted (map Not fl)"
    using Cons.prems unfolding list.map sorted_simps .
  then have "sorted (map Not fl)" ..
  then obtain a c where fl: "fl = replicate a True @ replicate c False"
    using Cons.IH by blast
  show ?case
  proof (cases b)
    case True
    then have "b # fl = replicate (Suc a) True @ replicate c False"
      by (simp add: fl)
    then show ?thesis by blast
  next
    case False
    with both have "\<forall>x \<in> set fl. \<not> x"
      by auto
    then have "a = 0"
      by (cases a) (auto simp add: fl)
    with False have "b # fl = replicate 0 True @ replicate (Suc c) False"
      by (simp add: fl)
    then show ?thesis by blast
  qed
qed

lemma sorted_flags:
  assumes "sorted (map Not fl)"
  shows "fl = replicate (length (filter id fl)) True
              @ replicate (length fl - length (filter id fl)) False"
proof -
  from assms obtain a c where fl: "fl = replicate a True @ replicate c False"
    using sorted_flags_shape by blast
  show ?thesis
    by (simp add: fl)
qed

lemma agentsFirst_iff:
  "agentsFirst s =
     (sorted (map (\<lambda>p. \<not> HasAgent p) (Peers (myPeers s))) \<and> agentCount s = agentQuota s)"
proof
  assume first: "agentsFirst s"
  then have "map Not (map HasAgent (Peers (myPeers s))) =
      replicate (agentQuota s) False
      @ replicate (length (Peers (myPeers s)) - agentQuota s) True"
    by (simp add: agentsFirst_def)
  then have "sorted (map Not (map HasAgent (Peers (myPeers s))))"
    by (simp add: sorted_append)
  then have "sorted (map (\<lambda>p. \<not> HasAgent p) (Peers (myPeers s)))"
    by (simp add: comp_def)
  with first show "sorted (map (\<lambda>p. \<not> HasAgent p) (Peers (myPeers s)))
      \<and> agentCount s = agentQuota s"
    by (simp add: agentsFirst_count)
next
  assume "sorted (map (\<lambda>p. \<not> HasAgent p) (Peers (myPeers s))) \<and> agentCount s = agentQuota s"
  then have srt: "sorted (map Not (map HasAgent (Peers (myPeers s))))"
    and cnt: "agentCount s = agentQuota s"
    by (simp_all add: comp_def)
  from srt have "map HasAgent (Peers (myPeers s)) =
      replicate (length (filter id (map HasAgent (Peers (myPeers s))))) True
      @ replicate (length (map HasAgent (Peers (myPeers s)))
                   - length (filter id (map HasAgent (Peers (myPeers s))))) False"
    by (rule sorted_flags)
  then show "agentsFirst s"
    using cnt by (simp add: agentsFirst_def agentCount_def)
qed

text \<open>A request that loses no agent keeps the agents first.\<close>

lemma goodbye_keeps_first:
  assumes first: "agentsFirst s" and size: "1 \<le> AgencySize_s s"
    and keeps: "\<not> losesAgent s (Goodbye werr r)"
  shows "agentsFirst (fst (goodbyeHandler werr s r))"
proof -
  let ?s' = "fst (goodbyeHandler werr s r)"
  let ?ps = "Peers (myPeers s)" and ?ps' = "Peers (myPeers ?s')"
  obtain P where ps': "?ps' = filter P ?ps"
  proof -
    from goodbyeHandler_Peers [of werr s r] show ?thesis
    proof
      assume "?ps' = ?ps"
      then have "?ps' = filter (\<lambda>p. True) ?ps" by simp
      then show ?thesis by (rule that)
    next
      assume "\<exists>i. ?ps' = filter (\<lambda>p. ID p \<noteq> i) ?ps"
      then show ?thesis using that by blast
    qed
  qed
  from first have srt: "sorted (map (\<lambda>p. \<not> HasAgent p) ?ps)"
    and cnt: "agentCount s = agentQuota s"
    by (simp_all add: agentsFirst_iff)
  have srt': "sorted (map (\<lambda>p. \<not> HasAgent p) ?ps')"
    unfolding ps' using srt by (rule sorted_filter)
  have le: "agentCount ?s' \<le> agentCount s"
  proof -
    have "length (filter HasAgent (filter P xs)) \<le> length (filter HasAgent xs)"
      for xs :: "Peer list"
      by (induction xs) simp_all
    then show ?thesis
      by (simp add: agentCount_def ps')
  qed
  have A: "AgencySize_s ?s' = AgencySize_s s"
    by (rule goodbyeHandler_frame)
  have "agentCount ?s' = agentQuota ?s'"
  proof (cases "AgencySize_s s < int (length ?ps)")
    case True
    with keeps le have "agentCount ?s' = agentCount s"
      by simp
    moreover from True size cnt have "agentCount s = nat (AgencySize_s s)"
      by (simp add: agentQuota_def)
    ultimately show ?thesis
      using agentCount_le_length [of ?s'] by (simp add: agentQuota_def A)
  next
    case False
    with cnt have "length (filter HasAgent ?ps) = length ?ps"
      by (simp add: agentCount_def agentQuota_def)
    then have "\<forall>p \<in> set ?ps. HasAgent p"
      using length_filter_less [of _ ?ps HasAgent] by force
    then have "\<forall>p \<in> set ?ps'. HasAgent p"
      by (simp add: ps')
    then have "filter HasAgent ?ps' = ?ps'"
      by (simp only: filter_id_conv)
    then have "agentCount ?s' = length ?ps'"
      by (simp add: agentCount_def)
    moreover have "length ?ps' \<le> length ?ps"
      by (simp add: ps')
    ultimately show ?thesis
      using False by (simp add: agentQuota_def A)
  qed
  with srt' show ?thesis
    by (simp add: agentsFirst_iff)
qed

lemma step_keeps_first:
  assumes "agentsFirst s" and "1 \<le> AgencySize_s s" and "\<not> losesAgent s op"
  shows "agentsFirst (step findHost GetFreePortOffset s op)"
proof (cases op)
  case (Hello r)
  from assms(1) have "agentsByIndex s"
    by (simp add: agentsByIndex_eq_first)
  with assms(2) have "agentsByIndex (fst (helloHandler findHost GetFreePortOffset s r))"
    by (rule hello_byIndex)
  with Hello show ?thesis
    by (simp add: agentsByIndex_eq_first)
next
  case (Goodbye werr r)
  with assms show ?thesis
    by (simp add: goodbye_keeps_first del: losesAgent.simps)
qed

lemma run_keeps_first:
  assumes "1 \<le> AgencySize_s s" and "agentsFirst s"
    and "neverLosesAgent findHost GetFreePortOffset s ops"
  shows "agentsFirst (run findHost GetFreePortOffset s ops)"
  using assms
proof (induction ops arbitrary: s)
  case Nil
  then show ?case by (simp add: run_def)
next
  case (Cons op ops)
  let ?t = "step findHost GetFreePortOffset s op"
  from Cons.prems have keeps: "\<not> losesAgent s op"
    and rest: "neverLosesAgent findHost GetFreePortOffset ?t ops"
    by simp_all
  have "1 \<le> AgencySize_s ?t"
    using Cons.prems(1) by (simp add: step_AgencySize)
  moreover have "agentsFirst ?t"
    using Cons.prems(2,1) keeps by (rule step_keeps_first)
  ultimately have "agentsFirst (run findHost GetFreePortOffset ?t ops)"
    using rest by (rule Cons.IH)
  then show ?case
    by (simp add: run_def)
qed

lemma neverLosesAgent_append:
  "neverLosesAgent findHost GetFreePortOffset s (ops @ ops') =
     (neverLosesAgent findHost GetFreePortOffset s ops \<and>
      neverLosesAgent findHost GetFreePortOffset (run findHost GetFreePortOffset s ops) ops')"
  by (induction ops arbitrary: s) (simp_all add: run_def)

lemma hellos_lose_no_agent:
  "list_all isHello ops \<Longrightarrow> neverLosesAgent findHost GetFreePortOffset s ops"
proof (induction ops arbitrary: s)
  case Nil
  show ?case by simp
next
  case (Cons op ops)
  then show ?case by (cases op) simp_all
qed

subsection \<open>The examples, evaluated\<close>

lemma exFindHost_examples:
  "exFindHost ''10.0.0.1:4000'' = ''10.0.0.1''"
  "exFindHost ''10.0.0.9:5555'' = ''10.0.0.9''"
  by (simp_all add: exFindHost_def)

lemma example_requests:
  "Method helloGET = ''GET''" "Host helloGET = ''10.0.0.1:4000''"
  "Method (helloBroken b) = ''POST''" "Body (helloBroken b) = b"
  "Host (helloBroken b) = ''10.0.0.1:4000''"
  "Method (helloPOST i a d) = ''POST''" "Host (helloPOST i a d) = ''10.0.0.1:4000''"
  "RemoteAddr (helloPOST i a d) = ''10.0.0.9:5555''"
  "Body (helloPOST i a d) =
     Parsed \<lparr>SlaveID = i, SlaveAddress = a, SlavePort = 4000, DataDir_req = d\<rparr>"
  by (simp_all add: helloGET_def helloBroken_def helloPOST_def)

lemma exLeader_fields:
  "state (exLeader n) = stateMaster" "Peers (myPeers (exLeader n)) = []"
  "ID_s (exLeader n) = ''A''" "DataDir_s (exLeader n) = ''/data''"
  "AgencySize_s (exLeader n) = n" "isNetHost (exLeader n) = False"
  "announcePort (exLeader n) = 4000" "allowSameDataDir (exLeader n) = False"
  "runningTriggers (exLeader n) = 0"
  by (simp_all add: exLeader_def mkService_def)

lemma exTwo_fields:
  "state exTwo = stateMaster" "AgencySize_s exTwo = 3" "allowSameDataDir exTwo = False"
  "runningTriggers exTwo = 0"
  "myPeers exTwo = \<lparr>Peers = [mkPeer ''A'' ''10.0.0.1'' 0 True, mkPeer ''B'' ''10.0.0.2'' 5 True],
     AgencySize = 3\<rparr>"
  by (simp_all add: exTwo_def mkService_def)

lemma exThree_fields:
  "state exThree = stateMaster" "AgencySize_s exThree = 3" "allowSameDataDir exThree = False"
  "myPeers exThree = \<lparr>Peers = [mkPeer ''A'' ''10.0.0.1'' 0 True, mkPeer ''B'' ''10.0.0.2'' 5 True,
        mkPeer ''C'' ''10.0.0.3'' 10 True], AgencySize = 3\<rparr>"
  by (simp_all add: exThree_def mkService_def)

lemma exThree_learnOwnAddress: "learnOwnAddress findHost exThree r = exThree"
  by (simp add: learnOwnAddress_nonempty exThree_fields)

lemma exRunning_myPeer:
  "PeerByID (myPeers (exRunning ag)) (ID_s (exRunning ag)) = Some (mkPeer ''A'' ''10.0.0.1'' 0 ag)"
  by (simp add: exRunning_def mkService_def mkPeer_def PeerByID_def)

lemma exRunning_needsAgent: "needsAgent (exRunning ag) = ag"
  by (simp add: needsAgent_def exRunning_myPeer) (simp add: mkPeer_def)


lemma exRunning_logPath:
  "logPath (exRunning ag) (mkPeer ''A'' ''10.0.0.1'' 0 ag) ''dbserver'' portOffsetDBServer
     = [''/data'', ''dbserver4003'', ''arangod.log'']"
  "logPath (exRunning ag) (mkPeer ''A'' ''10.0.0.1'' 0 ag) ''agent'' portOffsetAgent
     = [''/data'', ''agent4001'', ''arangod.log'']"
  by (simp_all add: logPath_def exRunning_def mkService_def mkPeer_def go_add_def
        portOffsetDBServer_def portOffsetAgent_def fmt_d_def digit_def)

lemma exThree_goodbye_C:
  "goodbyeHandler werr exThree (goodbyePOST ''C'') =
     (snd (saveSetup werr (exThree\<lparr>myPeers := \<lparr>Peers = [mkPeer ''A'' ''10.0.0.1'' 0 True,
         mkPeer ''B'' ''10.0.0.2'' 5 True], AgencySize = 3\<rparr>\<rparr>)),
      \<lparr>StatusCode = 200, Location = None, Written = Bytes ''BYE''\<rparr>)"
  by (simp add: goodbyeHandler_def goodbyePOST_def RemovePeerByID_def exThree_def
        mkService_def mkPeer_def)

lemma exThree_hello_empty_address:
  "helloHandler exFindHost exFreePortOffset exThree (helloPOST ''B'' '''' ''/data2'') =
     (exThree\<lparr>myPeers := \<lparr>Peers = [mkPeer ''A'' ''10.0.0.1'' 0 True,
          \<lparr>ID = ''B'', Address = '''', Port = 4000, PortOffset = 5, DataDir = ''/data2'',
            HasAgent = True\<rparr>,
          mkPeer ''C'' ''10.0.0.3'' 10 True], AgencySize = 3\<rparr>\<rparr>,
      \<lparr>StatusCode = 200, Location = None,
       Written = PeersJSON \<lparr>Peers = [mkPeer ''A'' ''10.0.0.1'' 0 True,
          \<lparr>ID = ''B'', Address = '''', Port = 4000, PortOffset = 5, DataDir = ''/data2'',
            HasAgent = True\<rparr>,
          mkPeer ''C'' ''10.0.0.3'' 10 True], AgencySize = 3\<rparr>\<rparr>)"
  "helloHandler exFindHost exFreePortOffset exThree (helloPOST ''D'' '''' ''/data'') =
     (exThree\<lparr>myPeers := \<lparr>Peers = [mkPeer ''A'' ''10.0.0.1'' 0 True,
          mkPeer ''B'' ''10.0.0.2'' 5 True, mkPeer ''C'' ''10.0.0.3'' 10 True,
          mkPeer ''D'' ''10.0.0.9'' 15 False], AgencySize = 3\<rparr>\<rparr>,
      \<lparr>StatusCode = 200, Location = None,
       Written = PeersJSON \<lparr>Peers = [mkPeer ''A'' ''10.0.0.1'' 0 True,
          mkPeer ''B'' ''10.0.0.2'' 5 True, mkPeer ''C'' ''10.0.0.3'' 10 True,
          mkPeer ''D'' ''10.0.0.9'' 15 False], AgencySize = 3\<rparr>\<rparr>)"
  by (simp_all add: helloHandler_leader exThree_fields exThree_learnOwnAddress example_requests
        helloPost_def exFindHost_examples sameDirAsPeer_def PeerByID_def updatePeerData_def
        writePeers_def exFreePortOffset_def mkPeer_def Let_def)

lemma exTwo_hello_C:
  "helloHandler exFindHost exFreePortOffset exTwo (helloPOST ''C'' ''10.0.0.3'' ''/data'') =
     (exTwo\<lparr>myPeers := \<lparr>Peers = [mkPeer ''A'' ''10.0.0.1'' 0 True,
          mkPeer ''B'' ''10.0.0.2'' 5 True, mkPeer ''C'' ''10.0.0.3'' 10 True],
          AgencySize = 3\<rparr>, runningTriggers := Suc 0\<rparr>,
      \<lparr>StatusCode = 200, Location = None,
       Written = PeersJSON \<lparr>Peers = [mkPeer ''A'' ''10.0.0.1'' 0 True,
          mkPeer ''B'' ''10.0.0.2'' 5 True, mkPeer ''C'' ''10.0.0.3'' 10 True],
          AgencySize = 3\<rparr>\<rparr>)"
  by (simp add: helloHandler_leader exTwo_fields learnOwnAddress_nonempty example_requests
        helloPost_def sameDirAsPeer_def PeerByID_def writePeers_def exFreePortOffset_def
        mkPeer_def startRunningTrigger_def Let_def)

lemma exJoins_run:
  "myPeers (run exFindHost exFreePortOffset (exLeader 3) exJoins) =
     \<lparr>Peers = [mkPeer ''A'' ''10.0.0.1'' 0 True, mkPeer ''B'' ''10.0.0.2'' 5 True,
               mkPeer ''C'' ''10.0.0.3'' 10 True, mkPeer ''D'' ''10.0.0.4'' 15 False],
      AgencySize = 3\<rparr>"
  by (simp add: run_def exJoins_def helloHandler_def learnOwnAddress_def getHTTPServerPort_def
        exLeader_def mkService_def helloPOST_def helloPost_def sameDirAsPeer_def PeerByID_def
        exFindHost_def exFreePortOffset_def mkPeer_def writePeers_def startRunningTrigger_def
        Let_def)

lemma exJoinsLeave_run:
  "myPeers (run exFindHost exFreePortOffset (exLeader 3) exJoinsLeave) =
     \<lparr>Peers = [mkPeer ''B'' ''10.0.0.2'' 5 True,
               mkPeer ''C'' ''10.0.0.3'' 10 True, mkPeer ''D'' ''10.0.0.4'' 15 False],
      AgencySize = 3\<rparr>"
proof -
  have "run exFindHost exFreePortOffset (exLeader 3) exJoinsLeave =
      fst (goodbyeHandler None (run exFindHost exFreePortOffset (exLeader 3) exJoins)
             (goodbyePOST ''A''))"
    by (simp add: exJoinsLeave_def run_def)
  then show ?thesis
    by (simp add: goodbyeHandler_def goodbyePOST_def RemovePeerByID_def exJoins_run
          saveSetup_def mkPeer_def)
qed

lemma exJoins_AgencySize:
  "AgencySize_s (run exFindHost exFreePortOffset (exLeader 3) ops) = 3"
  by (simp add: run_AgencySize exLeader_fields)

lemma exRejoin_run:
  "myPeers (run exFindHost exFreePortOffset (exLeader 3) exRejoin) =
     \<lparr>Peers = [mkPeer ''A'' ''10.0.0.1'' 0 True, mkPeer ''B'' ''10.0.0.2'' 5 True,
               mkPeer ''C'' ''10.0.0.3'' 10 True, mkPeer ''E'' ''10.0.0.5'' 15 False],
      AgencySize = 3\<rparr>"
  by (simp add: run_def exRejoin_def exJoins_def helloHandler_def learnOwnAddress_def
        getHTTPServerPort_def exLeader_def mkService_def helloPOST_def helloPost_def
        sameDirAsPeer_def PeerByID_def exFindHost_def exFreePortOffset_def mkPeer_def
        writePeers_def startRunningTrigger_def goodbyeHandler_def goodbyePOST_def
        RemovePeerByID_def saveSetup_def Let_def)

lemma exJoins_goodbye:
  "agentCount (run exFindHost exFreePortOffset (exLeader 3) exJoins) = 3"
  "length (Peers (myPeers (run exFindHost exFreePortOffset (exLeader 3) exJoins))) = 4"
  "agentCount (fst (goodbyeHandler None (run exFindHost exFreePortOffset (exLeader 3) exJoins)
                      (goodbyePOST ''D''))) = 3"
  "agentCount (fst (goodbyeHandler None (run exFindHost exFreePortOffset (exLeader 3) exJoins)
                      (goodbyePOST ''A''))) = 2"
  by (simp_all add: agentCount_def goodbyeHandler_def goodbyePOST_def RemovePeerByID_def
        exJoins_run saveSetup_def mkPeer_def)

lemma exJoins_hellos: "list_all isHello exJoins"
  by (simp add: exJoins_def)

lemma exRejoin_loses_no_agent:
  "neverLosesAgent exFindHost exFreePortOffset (exLeader 3) exRejoin"
  by (simp add: exRejoin_def neverLosesAgent_append hellos_lose_no_agent exJoins_hellos
        exJoins_goodbye exJoins_AgencySize)

lemma exJoinsLeave_loses_agent:
  "\<not> neverLosesAgent exFindHost exFreePortOffset (exLeader 3) exJoinsLeave"
  by (simp add: exJoinsLeave_def neverLosesAgent_append hellos_lose_no_agent exJoins_hellos
        exJoins_goodbye exJoins_AgencySize)

lemma exTwo_hello_C_derived:
  "helloHandler exFindHost exFreePortOffset exTwo (helloPOST ''C'' '''' ''/data'') =
     (exTwo\<lparr>myPeers := \<lparr>Peers = [mkPeer ''A'' ''10.0.0.1'' 0 True,
          mkPeer ''B'' ''10.0.0.2'' 5 True, mkPeer ''C'' ''10.0.0.9'' 10 True],
          AgencySize = 3\<rparr>, runningTriggers := Suc 0\<rparr>,
      \<lparr>StatusCode = 200, Location = None,
       Written = PeersJSON \<lparr>Peers = [mkPeer ''A'' ''10.0.0.1'' 0 True,
          mkPeer ''B'' ''10.0.0.2'' 5 True, mkPeer ''C'' ''10.0.0.9'' 10 True],
          AgencySize = 3\<rparr>\<rparr>)"
  by (simp add: helloHandler_leader exTwo_fields learnOwnAddress_nonempty example_requests
        helloPost_def sameDirAsPeer_def PeerByID_def writePeers_def exFreePortOffset_def
        exFindHost_examples mkPeer_def startRunningTrigger_def Let_def)

lemma exTwo_hello_C_derived_again:
  "helloHandler exFindHost exFreePortOffset
     (exTwo\<lparr>myPeers := \<lparr>Peers = [mkPeer ''A'' ''10.0.0.1'' 0 True,
          mkPeer ''B'' ''10.0.0.2'' 5 True, mkPeer ''C'' ''10.0.0.9'' 10 True],
          AgencySize = 3\<rparr>, runningTriggers := Suc 0\<rparr>)
     (helloPOST ''C'' '''' ''/data'') =
     (exTwo\<lparr>myPeers := \<lparr>Peers = [mkPeer ''A'' ''10.0.0.1'' 0 True,
          mkPeer ''B'' ''10.0.0.2'' 5 True, mkPeer ''C'' '''' 10 True],
          AgencySize = 3\<rparr>, runningTriggers := Suc 0\<rparr>,
      \<lparr>StatusCode = 200, Location = None,
       Written = PeersJSON \<lparr>Peers = [mkPeer ''A'' ''10.0.0.1'' 0 True,
          mkPeer ''B'' ''10.0.0.2'' 5 True, mkPeer ''C'' '''' 10 True],
          AgencySize = 3\<rparr>\<rparr>)"
  by (simp add: helloHandler_leader exTwo_fields learnOwnAddress_nonempty example_requests
        helloPost_def sameDirAsPeer_def PeerByID_def writePeers_def updatePeerData_def
        exFindHost_examples mkPeer_def Let_def)

subsection \<open>C1: the peers with an agent\<close>

text \<open>
  C1, as the claim has it, fails once a goodbye has removed a peer with an agent. The
  leader \<open>A\<close> with agency size 3 is joined by \<open>B\<close>, \<open>C\<close> and \<open>D\<close>, then a goodbye removes
  \<open>A\<close>: the registry is \<open>B\<close>, \<open>C\<close>, \<open>D\<close>, and \<open>D\<close> has no agent, so two peers have an
  agent where the claim has min(3, 3) = 3.
\<close>

theorem agents_after_goodbye:
  "map ID (Peers (myPeers (run exFindHost exFreePortOffset (exLeader 3) exJoinsLeave)))
     = [''B'', ''C'', ''D'']
   \<and> map HasAgent (Peers (myPeers (run exFindHost exFreePortOffset (exLeader 3) exJoinsLeave)))
     = [True, True, False]
   \<and> agentCount (run exFindHost exFreePortOffset (exLeader 3) exJoinsLeave) = 2
   \<and> agentQuota (run exFindHost exFreePortOffset (exLeader 3) exJoinsLeave) = 3
   \<and> \<not> agentsFirst (run exFindHost exFreePortOffset (exLeader 3) exJoinsLeave)"
  by (simp add: agentCount_def agentQuota_def agentsFirst_def exJoinsLeave_run
        exJoins_AgencySize mkPeer_def numeral_3_eq_3)

text \<open>
  C1, amended. From the empty registry of a starter whose agency size is at least 1,
  after any sequence of hello and goodbye requests at most min(number of peers, agency
  size) peers have \<open>HasAgent\<close>. Exactly that many have it, and they are the first in
  join order, as long as no goodbye of the sequence removes a peer with an agent from a
  registry that holds more peers than the agency size: hellos (self-install, append,
  update), goodbyes that are turned down or name an unknown id, goodbyes of a peer
  without an agent, and goodbyes from a registry of at most agency size peers all keep
  it.
\<close>

theorem agents_first_unless_agent_lost:
  assumes "Peers (myPeers s) = []" and "1 \<le> AgencySize_s s"
  shows "agentCount (run findHost GetFreePortOffset s ops)
           \<le> agentQuota (run findHost GetFreePortOffset s ops)
         \<and> (neverLosesAgent findHost GetFreePortOffset s ops \<longrightarrow>
               agentsFirst (run findHost GetFreePortOffset s ops)
               \<and> agentCount (run findHost GetFreePortOffset s ops)
                   = agentQuota (run findHost GetFreePortOffset s ops))"
proof -
  let ?t = "run findHost GetFreePortOffset s ops"
  have "agentCount s \<le> nat (AgencySize_s s)"
    using assms(1) by (simp add: agentCount_def)
  with assms(2) have "agentCount ?t \<le> nat (AgencySize_s s)"
    by (rule run_bound)
  then have bound: "agentCount ?t \<le> agentQuota ?t"
    using agentCount_le_length [of ?t] by (simp add: agentQuota_def run_AgencySize)
  have start: "agentsFirst s"
    using assms(1) by (simp add: agentsFirst_def agentQuota_def)
  have "agentsFirst ?t \<and> agentCount ?t = agentQuota ?t"
    if "neverLosesAgent findHost GetFreePortOffset s ops"
  proof -
    from assms(2) start that have "agentsFirst ?t"
      by (rule run_keeps_first)
    then show ?thesis
      by (simp add: agentsFirst_count)
  qed
  with bound show ?thesis by simp
qed

theorem agents_first_unless_agent_lost_witness:
  "agentCount (run exFindHost exFreePortOffset (exLeader 3) exJoinsLeave)
     \<le> agentQuota (run exFindHost exFreePortOffset (exLeader 3) exJoinsLeave)
   \<and> \<not> neverLosesAgent exFindHost exFreePortOffset (exLeader 3) exJoinsLeave
   \<and> neverLosesAgent exFindHost exFreePortOffset (exLeader 3) exRejoin
   \<and> map ID (Peers (myPeers (run exFindHost exFreePortOffset (exLeader 3) exRejoin)))
       = [''A'', ''B'', ''C'', ''E'']
   \<and> map HasAgent (Peers (myPeers (run exFindHost exFreePortOffset (exLeader 3) exRejoin)))
       = [True, True, True, False]
   \<and> agentsFirst (run exFindHost exFreePortOffset (exLeader 3) exRejoin)
   \<and> agentCount (run exFindHost exFreePortOffset (exLeader 3) exRejoin) = 3
   \<and> agentQuota (run exFindHost exFreePortOffset (exLeader 3) exRejoin) = 3"
proof -
  have empty: "Peers (myPeers (exLeader 3)) = []" and size: "1 \<le> AgencySize_s (exLeader 3)"
    by (simp_all add: exLeader_fields)
  have quota: "agentQuota (run exFindHost exFreePortOffset (exLeader 3) exRejoin) = 3"
    by (simp add: agentQuota_def exRejoin_run exJoins_AgencySize)
  have peers: "map ID (Peers (myPeers (run exFindHost exFreePortOffset (exLeader 3) exRejoin)))
       = [''A'', ''B'', ''C'', ''E'']"
    "map HasAgent (Peers (myPeers (run exFindHost exFreePortOffset (exLeader 3) exRejoin)))
       = [True, True, True, False]"
    by (simp_all add: exRejoin_run mkPeer_def)
  show ?thesis
    using agents_first_unless_agent_lost [OF empty size, of exFindHost exFreePortOffset
        exJoinsLeave]
      agents_first_unless_agent_lost [OF empty size, of exFindHost exFreePortOffset exRejoin]
      exJoinsLeave_loses_agent exRejoin_loses_no_agent quota peers
    by simp
qed

subsection \<open>C2: the running trigger\<close>

text \<open>
  C2, as the claim has it, fails for agency size 1. The first request to the leader
  (here a GET) installs the self-peer: the registry size goes from 0 to 1, the agency
  size, and the trigger is not signalled.
\<close>

theorem hello_self_install_no_trigger:
  "AgencySize_s (exLeader 1) = 1
   \<and> length (Peers (myPeers (exLeader 1))) = 0
   \<and> length (Peers (myPeers (fst (helloHandler exFindHost exFreePortOffset (exLeader 1)
                                      helloGET)))) = 1
   \<and> runningTriggers (fst (helloHandler exFindHost exFreePortOffset (exLeader 1) helloGET))
       = runningTriggers (exLeader 1)"
  by (simp add: helloHandler_leader exLeader_fields example_requests learnOwnAddress_frame
        learnOwnAddress_empty)

text \<open>
  C2, amended. A hello signals the running trigger once exactly when it appends a new
  peer and the registry size after the append equals the agency size, and never
  otherwise. Installing the self-peer signals nothing, so with agency size 1 no hello
  signals the trigger: the size is 1 after the self-install and at least 2 after an
  append.
\<close>

theorem hello_trigger_on_append_only:
  assumes "helloHandler findHost GetFreePortOffset s r = (s', resp)"
  shows "runningTriggers s' =
           runningTriggers s +
             (if length (Peers (myPeers s')) =
                   Suc (length (Peers (myPeers (learnOwnAddress findHost s r))))
                 \<and> int (length (Peers (myPeers s'))) = AgencySize_s s
              then 1 else 0)
         \<and> (AgencySize_s s = 1 \<longrightarrow> runningTriggers s' = runningTriggers s)"
proof (cases "state s = stateSlave")
  case True
  with assms have "s' = s"
    by (auto simp add: helloHandler_def split: list.splits)
  then show ?thesis
    by (auto simp add: learnOwnAddress_def Let_def)
next
  case False
  let ?s1 = "learnOwnAddress findHost s r"
  have nonempty: "0 < length (Peers (myPeers ?s1))"
    using learnOwnAddress_Peers_nonempty [of findHost s r] by simp
  from False show ?thesis
  proof (cases rule: hello_leader_cases [of s findHost GetFreePortOffset r])
    case unchanged
    with assms show ?thesis
      by (simp add: learnOwnAddress_frame)
  next
    case (update req)
    with assms show ?thesis
      by (auto simp add: learnOwnAddress_frame)
  next
    case (append req)
    with assms nonempty show ?thesis
      by auto
  qed
qed

theorem hello_trigger_on_append_only_witness:
  "length (Peers (myPeers exTwo)) = 2
   \<and> length (Peers (myPeers (fst (helloHandler exFindHost exFreePortOffset exTwo
         (helloPOST ''C'' ''10.0.0.3'' ''/data''))))) = 3
   \<and> runningTriggers (fst (helloHandler exFindHost exFreePortOffset exTwo
         (helloPOST ''C'' ''10.0.0.3'' ''/data''))) = runningTriggers exTwo + 1
   \<and> runningTriggers (fst (helloHandler exFindHost exFreePortOffset (exLeader 1)
         (helloPOST ''B'' ''10.0.0.2'' ''/data''))) = runningTriggers (exLeader 1)"
proof -
  have pair: "helloHandler exFindHost exFreePortOffset s r =
      (fst (helloHandler exFindHost exFreePortOffset s r),
       snd (helloHandler exFindHost exFreePortOffset s r))" for s r
    by simp
  show ?thesis
    using hello_trigger_on_append_only [OF pair, of exTwo "helloPOST ''C'' ''10.0.0.3'' ''/data''"]
      hello_trigger_on_append_only [OF pair, of "exLeader 1" "helloPOST ''B'' ''10.0.0.2'' ''/data''"]
    by (simp add: exTwo_hello_C exTwo_fields exLeader_fields learnOwnAddress_nonempty)
qed

subsection \<open>C3: the same hello twice\<close>

text \<open>
  C3. On the leader, when a hello POST has been answered 200, processing the same
  request once more leaves the registry size, the ids, the port offsets and the agent
  flags as they are and appends nothing: the registry is the old one where every entry
  of the request's id has its port, address and data directory overwritten with
  \<open>SlavePort\<close>, \<open>SlaveAddress\<close> and \<open>DataDir\<close> of the request, and every other
  entry is untouched. There is such an entry, nothing is triggered and the answer is 200
  again.
\<close>

theorem hello_twice:
  assumes "state s \<noteq> stateSlave" and "Method r = ''POST''"
    and "helloHandler findHost GetFreePortOffset s r = (s1, resp1)"
    and "StatusCode resp1 = 200"
    and "helloHandler findHost GetFreePortOffset s1 r = (s2, resp2)"
  shows "length (Peers (myPeers s2)) = length (Peers (myPeers s1))
         \<and> map ID (Peers (myPeers s2)) = map ID (Peers (myPeers s1))
         \<and> map PortOffset (Peers (myPeers s2)) = map PortOffset (Peers (myPeers s1))
         \<and> map HasAgent (Peers (myPeers s2)) = map HasAgent (Peers (myPeers s1))
         \<and> (\<exists>req. Body r = Parsed req
               \<and> Peers (myPeers s2) =
                   map (\<lambda>p. if ID p = SlaveID req
                            then p\<lparr>Port := SlavePort req, Address := SlaveAddress req,
                                   DataDir := DataDir_req req\<rparr>
                            else p) (Peers (myPeers s1))
               \<and> (\<exists>p \<in> set (Peers (myPeers s2)).
                     ID p = SlaveID req \<and> Address p = SlaveAddress req \<and>
                     Port p = SlavePort req \<and> DataDir p = DataDir_req req)
               \<and> (\<forall>p \<in> set (Peers (myPeers s2)).
                     ID p = SlaveID req \<longrightarrow>
                       Address p = SlaveAddress req \<and> Port p = SlavePort req \<and>
                       DataDir p = DataDir_req req)
               \<and> (\<forall>p \<in> set (Peers (myPeers s2)).
                     ID p \<noteq> SlaveID req \<longrightarrow> p \<in> set (Peers (myPeers s1))))
         \<and> StatusCode resp2 = 200
         \<and> runningTriggers s2 = runningTriggers s1"
proof -
  from assms(1-4) obtain req where req: "Body r = Parsed req"
    and st: "state s1 \<noteq> stateSlave" and ne: "Peers (myPeers s1) \<noteq> []"
    and acc: "accepted findHost s1 (RemoteAddr r) req"
    and known: "PeerByID (myPeers s1) (SlaveID req) \<noteq> None"
    by (rule hello_accepted_again)
  have "helloHandler findHost GetFreePortOffset s1 r =
      helloPost findHost GetFreePortOffset s1 (RemoteAddr r) req"
    using st assms(2) req ne by (simp add: helloHandler_leader learnOwnAddress_nonempty)
  with assms(5) acc known have
    s2: "s2 = s1\<lparr>myPeers := (myPeers s1)\<lparr>Peers := updatePeerData req (Peers (myPeers s1))\<rparr>\<rparr>"
    and resp2: "resp2 = writePeers s2"
    by (auto simp add: helloPost_update)
  have peers2: "Peers (myPeers s2) = updatePeerData req (Peers (myPeers s1))"
    by (simp add: s2)
  have written: "Peers (myPeers s2) =
      map (\<lambda>p. if ID p = SlaveID req
               then p\<lparr>Port := SlavePort req, Address := SlaveAddress req,
                      DataDir := DataDir_req req\<rparr>
               else p) (Peers (myPeers s1))"
    by (simp add: peers2 updatePeerData_def)
  have hit: "\<forall>p \<in> set (Peers (myPeers s2)).
      ID p = SlaveID req \<longrightarrow>
        Address p = SlaveAddress req \<and> Port p = SlavePort req \<and> DataDir p = DataDir_req req"
    unfolding peers2 using updatePeerData_hit by blast
  have miss: "\<forall>p \<in> set (Peers (myPeers s2)).
      ID p \<noteq> SlaveID req \<longrightarrow> p \<in> set (Peers (myPeers s1))"
    unfolding peers2 using updatePeerData_miss by blast
  from known have "PeerByID (myPeers s2) (SlaveID req) \<noteq> None"
    unfolding s2 by (simp add: PeerByID_update)
  then obtain q where q: "q \<in> set (Peers (myPeers s2))" "ID q = SlaveID req"
    by (auto simp add: PeerByID_None_iff)
  with hit have entry: "\<exists>p \<in> set (Peers (myPeers s2)).
      ID p = SlaveID req \<and> Address p = SlaveAddress req \<and>
      Port p = SlavePort req \<and> DataDir p = DataDir_req req"
    by blast
  have frame: "length (Peers (myPeers s2)) = length (Peers (myPeers s1))"
    "map ID (Peers (myPeers s2)) = map ID (Peers (myPeers s1))"
    "map PortOffset (Peers (myPeers s2)) = map PortOffset (Peers (myPeers s1))"
    "map HasAgent (Peers (myPeers s2)) = map HasAgent (Peers (myPeers s1))"
    by (simp_all add: peers2 updatePeerData_frame)
  have rest: "StatusCode resp2 = 200" "runningTriggers s2 = runningTriggers s1"
    by (simp_all add: resp2 s2)
  from req written entry hit miss have "\<exists>req. Body r = Parsed req
               \<and> Peers (myPeers s2) =
                   map (\<lambda>p. if ID p = SlaveID req
                            then p\<lparr>Port := SlavePort req, Address := SlaveAddress req,
                                   DataDir := DataDir_req req\<rparr>
                            else p) (Peers (myPeers s1))
               \<and> (\<exists>p \<in> set (Peers (myPeers s2)).
                     ID p = SlaveID req \<and> Address p = SlaveAddress req \<and>
                     Port p = SlavePort req \<and> DataDir p = DataDir_req req)
               \<and> (\<forall>p \<in> set (Peers (myPeers s2)).
                     ID p = SlaveID req \<longrightarrow>
                       Address p = SlaveAddress req \<and> Port p = SlavePort req \<and>
                       DataDir p = DataDir_req req)
               \<and> (\<forall>p \<in> set (Peers (myPeers s2)).
                     ID p \<noteq> SlaveID req \<longrightarrow> p \<in> set (Peers (myPeers s1)))"
    by blast
  with frame rest show ?thesis
    by (intro conjI)
qed

theorem hello_twice_witness:
  "Peers (myPeers (fst (helloHandler exFindHost exFreePortOffset exTwo
       (helloPOST ''C'' '''' ''/data''))))
     = [mkPeer ''A'' ''10.0.0.1'' 0 True, mkPeer ''B'' ''10.0.0.2'' 5 True,
        mkPeer ''C'' ''10.0.0.9'' 10 True]
   \<and> Peers (myPeers (fst (helloHandler exFindHost exFreePortOffset
         (fst (helloHandler exFindHost exFreePortOffset exTwo
                 (helloPOST ''C'' '''' ''/data'')))
         (helloPOST ''C'' '''' ''/data''))))
     = [mkPeer ''A'' ''10.0.0.1'' 0 True, mkPeer ''B'' ''10.0.0.2'' 5 True,
        mkPeer ''C'' '''' 10 True]
   \<and> StatusCode (snd (helloHandler exFindHost exFreePortOffset
         (fst (helloHandler exFindHost exFreePortOffset exTwo
                 (helloPOST ''C'' '''' ''/data'')))
         (helloPOST ''C'' '''' ''/data''))) = 200"
proof -
  have leader: "state exTwo \<noteq> stateSlave"
    by (simp add: exTwo_fields)
  have post: "Method (helloPOST ''C'' '''' ''/data'') = ''POST''"
    by (simp add: example_requests)
  have ok: "StatusCode (snd (helloHandler exFindHost exFreePortOffset exTwo
      (helloPOST ''C'' '''' ''/data''))) = 200"
    by (simp add: exTwo_hello_C_derived)
  have pair: "helloHandler exFindHost exFreePortOffset s r =
      (fst (helloHandler exFindHost exFreePortOffset s r),
       snd (helloHandler exFindHost exFreePortOffset s r))" for s r
    by simp
  show ?thesis
    using hello_twice [OF leader post pair ok pair]
    by (simp add: exTwo_hello_C_derived exTwo_hello_C_derived_again)
qed

subsection \<open>C4: the process list\<close>



subsection \<open>C5: goodbye\<close>

text \<open>
  C5, as the claim has it, fails when the setup cannot be written. The peer \<open>C\<close> is in
  the registry and the write fails: \<open>C\<close> is removed and the answer is 200 with \<open>BYE\<close>,
  but the setup file is not written (the handler only logs the error).
\<close>

theorem goodbye_save_fails:
  "PeerByID (myPeers exThree) ''C'' \<noteq> None
   \<and> snd (goodbyeHandler (Some ''no space left on device'') exThree (goodbyePOST ''C''))
       = \<lparr>StatusCode = 200, Location = None, Written = Bytes ''BYE''\<rparr>
   \<and> PeerByID
        (myPeers (fst (goodbyeHandler (Some ''no space left on device'') exThree
                         (goodbyePOST ''C''))))
        ''C'' = None
   \<and> setupFile (fst (goodbyeHandler (Some ''no space left on device'') exThree
                        (goodbyePOST ''C''))) = None"
  by (simp add: exThree_goodbye_C saveSetup_def)
     (simp add: exThree_def mkService_def mkPeer_def PeerByID_def)

text \<open>
  C5, amended. For a goodbye POST whose body decodes to a non-empty \<open>SlaveID\<close>: when
  the id is in the registry, the entry is removed, the answer is 200 with body \<open>BYE\<close>,
  and the setup file holds the new registry if the write succeeds and is left as it
  was if the write fails; when the id is unknown, the answer is 404 and nothing
  changes, neither the registry nor the setup file.
\<close>

theorem goodbye_responses:
  assumes "Method r = ''POST''" and "Body r = Parsed req" and "SlaveID_bye req \<noteq> ''''"
    and "goodbyeHandler werr s r = (s', resp)"
  shows "(PeerByID (myPeers s) (SlaveID_bye req) \<noteq> None \<longrightarrow>
            Peers (myPeers s') = filter (\<lambda>p. ID p \<noteq> SlaveID_bye req) (Peers (myPeers s))
            \<and> PeerByID (myPeers s') (SlaveID_bye req) = None
            \<and> AgencySize (myPeers s') = AgencySize (myPeers s)
            \<and> resp = \<lparr>StatusCode = 200, Location = None, Written = Bytes ''BYE''\<rparr>
            \<and> (werr = None \<longrightarrow> setupFile s' = Some (myPeers s'))
            \<and> (werr \<noteq> None \<longrightarrow> setupFile s' = setupFile s))
       \<and> (PeerByID (myPeers s) (SlaveID_bye req) = None \<longrightarrow>
            resp = \<lparr>StatusCode = 404, Location = None, Written = ErrorResponse ''Unknown ID''\<rparr>
            \<and> s' = s)"
proof (cases "PeerByID (myPeers s) (SlaveID_bye req) = None")
  case True
  then have "\<not> fst (RemovePeerByID (myPeers s) (SlaveID_bye req))"
    by (simp add: RemovePeerByID_found)
  with assms True show ?thesis
    by (auto simp add: goodbyeHandler_def writeError_def split: prod.splits)
next
  case False
  then have found: "fst (RemovePeerByID (myPeers s) (SlaveID_bye req))"
    by (simp add: RemovePeerByID_found)
  obtain ps where ps: "RemovePeerByID (myPeers s) (SlaveID_bye req) = (True, ps)"
    using found by (cases "RemovePeerByID (myPeers s) (SlaveID_bye req)") simp
  have s': "s' = snd (saveSetup werr (s\<lparr>myPeers := ps\<rparr>))"
    and resp: "resp = \<lparr>StatusCode = 200, Location = None, Written = Bytes ''BYE''\<rparr>"
    using assms ps by (simp_all add: goodbyeHandler_def)
  have ps_eq: "ps = snd (RemovePeerByID (myPeers s) (SlaveID_bye req))"
    by (simp add: ps)
  have peers': "myPeers s' = ps"
    by (simp add: s' saveSetup_def split: option.splits)
  have "Peers ps = filter (\<lambda>p. ID p \<noteq> SlaveID_bye req) (Peers (myPeers s))"
    by (simp add: ps_eq RemovePeerByID_Peers)
  moreover have "PeerByID ps (SlaveID_bye req) = None"
    by (simp add: ps_eq RemovePeerByID_gone)
  moreover have "AgencySize ps = AgencySize (myPeers s)"
    by (simp add: ps_eq RemovePeerByID_def)
  moreover have "werr = None \<longrightarrow> setupFile s' = Some (myPeers s')"
    by (simp add: s' saveSetup_def)
  moreover have "werr \<noteq> None \<longrightarrow> setupFile s' = setupFile s"
    by (auto simp add: s' saveSetup_def)
  ultimately show ?thesis
    using False resp peers' by simp
qed

theorem goodbye_responses_witness:
  "Peers (myPeers (fst (goodbyeHandler None exThree (goodbyePOST ''C''))))
     = [mkPeer ''A'' ''10.0.0.1'' 0 True, mkPeer ''B'' ''10.0.0.2'' 5 True]
   \<and> snd (goodbyeHandler None exThree (goodbyePOST ''C''))
     = \<lparr>StatusCode = 200, Location = None, Written = Bytes ''BYE''\<rparr>
   \<and> setupFile (fst (goodbyeHandler None exThree (goodbyePOST ''C'')))
     = Some \<lparr>Peers = [mkPeer ''A'' ''10.0.0.1'' 0 True, mkPeer ''B'' ''10.0.0.2'' 5 True],
             AgencySize = 3\<rparr>
   \<and> goodbyeHandler None exThree (goodbyePOST ''D'')
     = (exThree, \<lparr>StatusCode = 404, Location = None, Written = ErrorResponse ''Unknown ID''\<rparr>)"
proof -
  have m: "Method (goodbyePOST i) = ''POST''"
    and b: "Body (goodbyePOST i) = Parsed \<lparr>SlaveID_bye = i\<rparr>" for i
    by (simp_all add: goodbyePOST_def)
  have C: "PeerByID (myPeers exThree) ''C'' \<noteq> None"
    and D: "PeerByID (myPeers exThree) ''D'' = None"
    by (simp_all add: exThree_def mkService_def mkPeer_def PeerByID_def)
  have eqC: "goodbyeHandler None exThree (goodbyePOST ''C'') =
      (fst (goodbyeHandler None exThree (goodbyePOST ''C'')),
       snd (goodbyeHandler None exThree (goodbyePOST ''C'')))"
    and eqD: "goodbyeHandler None exThree (goodbyePOST ''D'') =
      (fst (goodbyeHandler None exThree (goodbyePOST ''D'')),
       snd (goodbyeHandler None exThree (goodbyePOST ''D'')))"
    by simp_all
  show ?thesis
    using goodbye_responses [OF m b _ eqC] goodbye_responses [OF m b _ eqD] C D
    by (simp add: exThree_goodbye_C saveSetup_def)
       (simp add: exThree_def mkService_def prod_eq_iff)
qed

subsection \<open>C6: hello to a follower\<close>

text \<open>
  C6. A starter in state \<open>stateSlave\<close> answers every hello without changing anything:
  with 307 and the header \<open>Location: http://<Address>:<Port>/hello\<close> of its first peer
  when it knows a peer, with 400 when it knows none.
\<close>

theorem hello_on_follower:
  assumes "state s = stateSlave"
  shows "(Peers (myPeers s) \<noteq> [] \<longrightarrow>
            helloHandler findHost GetFreePortOffset s r =
              (s, \<lparr>StatusCode = 307,
                   Location = Some (''http://'' @ Address (Peers (myPeers s) ! 0) @ '':''
                                    @ fmt_d (Port (Peers (myPeers s) ! 0)) @ ''/hello''),
                   Written = NoContent\<rparr>))
       \<and> (Peers (myPeers s) = [] \<longrightarrow>
            helloHandler findHost GetFreePortOffset s r =
              (s, \<lparr>StatusCode = 400, Location = None,
                   Written = ErrorResponse ''No master known.''\<rparr>))"
  using assms by (cases "Peers (myPeers s)") (simp_all add: helloHandler_def writeError_def)

theorem hello_on_follower_witness:
  "helloHandler exFindHost exFreePortOffset
     (mkService stateSlave ''B'' 3 [mkPeer ''A'' ''10.0.0.1'' 0 True]) helloGET
     = (mkService stateSlave ''B'' 3 [mkPeer ''A'' ''10.0.0.1'' 0 True],
        \<lparr>StatusCode = 307, Location = Some ''http://10.0.0.1:4000/hello'',
         Written = NoContent\<rparr>)
   \<and> helloHandler exFindHost exFreePortOffset (mkService stateSlave ''B'' 3 []) helloGET
     = (mkService stateSlave ''B'' 3 [],
        \<lparr>StatusCode = 400, Location = None, Written = ErrorResponse ''No master known.''\<rparr>)"
proof -
  have slave: "state (mkService stateSlave i n ps) = stateSlave" for i n ps
    by (simp add: mkService_def)
  have peers: "Peers (myPeers (mkService stateSlave i n ps)) = ps" for i n ps
    by (simp add: mkService_def)
  have url: "Address (mkPeer ''A'' ''10.0.0.1'' 0 True) = ''10.0.0.1''"
    "fmt_d (Port (mkPeer ''A'' ''10.0.0.1'' 0 True)) = ''4000''"
    by (simp_all add: mkPeer_def fmt_d_def digit_def)
  show ?thesis
    using hello_on_follower [OF slave, of "''B''" 3 "[mkPeer ''A'' ''10.0.0.1'' 0 True]"
        exFindHost exFreePortOffset helloGET]
      hello_on_follower [OF slave, of "''B''" 3 "[]" exFindHost exFreePortOffset helloGET]
    by (simp add: peers url)
qed

subsection \<open>C7: the log handlers\<close>

text \<open>
  C7, as the claim has it, fails where the log file is there and cannot be opened: the
  dbserver log of the example directory may not be read, and the handler answers 500
  with the error text, not 200 with the contents.
\<close>

theorem dbserver_log_unreadable:
  "exLogs [''/data'', ''dbserver4003'', ''arangod.log''] = OpenFailed ''permission denied''
   \<and> dbserverLogsHandler exLogs (exRunning True) =
       \<lparr>StatusCode = 500, Location = None, Written = Bytes ''permission denied''\<rparr>"
  by (simp add: dbserverLogsHandler_def logsHandler_def exRunning_myPeer exRunning_logPath
        exLogs_def)

text \<open>
  C7, amended. \<^verbatim>\<open>/logs/agent\<close> on a starter that needs no agent answers 404. For a
  registered starter, each of the three log handlers (the agent's when the own peer has
  \<open>HasAgent\<close>) opens \<open>arangod.log\<close> in the directory named by the role and the port under
  the data directory: when the file does not exist the answer is 200 with nothing
  written, when it opens the answer is 200 with its contents, and when opening fails for
  any other reason the answer is 500 with the error text.
\<close>

theorem logs_responses:
  "(\<not> needsAgent s \<longrightarrow>
      agentLogsHandler os_Open s =
        \<lparr>StatusCode = 404, Location = None, Written = NoContent\<rparr>)
   \<and> (PeerByID (myPeers s) (ID_s s) = Some myPeer \<and>
        (h = agentLogsHandler \<and> HasAgent myPeer \<and> mode = ''agent'' \<and> off = portOffsetAgent
         \<or> h = dbserverLogsHandler \<and> mode = ''dbserver'' \<and> off = portOffsetDBServer
         \<or> h = coordinatorLogsHandler \<and> mode = ''coordinator'' \<and> off = portOffsetCoordinator)
      \<longrightarrow>
        logPath s myPeer mode off =
          [DataDir_s s,
           mode @ fmt_d (go_add (go_add (MasterPort s) (PortOffset myPeer)) off),
           ''arangod.log'']
        \<and> h os_Open s =
            (case os_Open (logPath s myPeer mode off) of
               NotExist \<Rightarrow> \<lparr>StatusCode = 200, Location = None, Written = NoContent\<rparr>
             | Opened contents \<Rightarrow>
                 \<lparr>StatusCode = 200, Location = None, Written = Bytes contents\<rparr>
             | OpenFailed e \<Rightarrow> \<lparr>StatusCode = 500, Location = None, Written = Bytes e\<rparr>))"
proof -
  have agent404: "\<not> needsAgent s \<longrightarrow>
      agentLogsHandler os_Open s =
        \<lparr>StatusCode = 404, Location = None, Written = NoContent\<rparr>"
    by (simp add: agentLogsHandler_def)
  have found: "logsHandler os_Open s m k =
            (case os_Open (logPath s myPeer m k) of
               NotExist \<Rightarrow> \<lparr>StatusCode = 200, Location = None, Written = NoContent\<rparr>
             | Opened contents \<Rightarrow>
                 \<lparr>StatusCode = 200, Location = None, Written = Bytes contents\<rparr>
             | OpenFailed e \<Rightarrow> \<lparr>StatusCode = 500, Location = None, Written = Bytes e\<rparr>)"
    if "PeerByID (myPeers s) (ID_s s) = Some myPeer" for m k
    using that by (simp add: logsHandler_def split: OpenResult.splits)
  have agent: "needsAgent s"
    if "PeerByID (myPeers s) (ID_s s) = Some myPeer" "HasAgent myPeer"
    using that by (simp add: needsAgent_def)
  show ?thesis
    using agent404 found agent
    by (auto simp add: agentLogsHandler_def dbserverLogsHandler_def
          coordinatorLogsHandler_def logPath_def)
qed

theorem logs_responses_witness:
  "agentLogsHandler exLogs (exRunning False) =
     \<lparr>StatusCode = 404, Location = None, Written = NoContent\<rparr>
   \<and> agentLogsHandler exLogs (exRunning True) =
     \<lparr>StatusCode = 200, Location = None, Written = NoContent\<rparr>
   \<and> coordinatorLogsHandler exLogs (exRunning True) =
     \<lparr>StatusCode = 200, Location = None, Written = Bytes ''ready''\<rparr>
   \<and> dbserverLogsHandler exLogs (exRunning True) =
     \<lparr>StatusCode = 500, Location = None, Written = Bytes ''permission denied''\<rparr>"
  using logs_responses [of "exRunning False" exLogs "mkPeer ''A'' ''10.0.0.1'' 0 False"
          dbserverLogsHandler "''dbserver''" portOffsetDBServer]
        logs_responses [of "exRunning True" exLogs "mkPeer ''A'' ''10.0.0.1'' 0 True"
          agentLogsHandler "''agent''" portOffsetAgent]
        logs_responses [of "exRunning True" exLogs "mkPeer ''A'' ''10.0.0.1'' 0 True"
          coordinatorLogsHandler "''coordinator''" portOffsetCoordinator]
        logs_responses [of "exRunning True" exLogs "mkPeer ''A'' ''10.0.0.1'' 0 True"
          dbserverLogsHandler "''dbserver''" portOffsetDBServer]
  by (simp add: exRunning_myPeer exRunning_needsAgent exLogs_def)
     (simp add: mkPeer_def exRunning_def mkService_def go_add_def fmt_d_def digit_def
        portOffsetAgent_def portOffsetCoordinator_def portOffsetDBServer_def)

subsection \<open>C8: the plausibility checks\<close>

text \<open>
  C8. The checks end the process with exit code 1 exactly when \<open>agencySize\<close> is even or
  not positive, or \<open>agencySize\<close> is 1 and \<open>ownAddress\<close> is empty, or both \<open>dockerImage\<close>
  and \<open>rrPath\<close> are set; in every other configuration control passes the checks.
\<close>

theorem plausibilityChecks_fatal_iff:
  "(plausibilityChecks f = Checked) =
     (\<not> ((even (agencySize f) \<or> agencySize f \<le> 0)
          \<or> (agencySize f = 1 \<and> ownAddress f = '''')
          \<or> (dockerImage f \<noteq> '''' \<and> rrPath f \<noteq> '''')))
   \<and> (exitCode (plausibilityChecks f) = Some 1) =
       ((even (agencySize f) \<or> agencySize f \<le> 0)
          \<or> (agencySize f = 1 \<and> ownAddress f = '''')
          \<or> (dockerImage f \<noteq> '''' \<and> rrPath f \<noteq> ''''))
   \<and> (exitCode (plausibilityChecks f) = None) = (plausibilityChecks f = Checked)"
  by (simp add: plausibilityChecks_def smod_two_eq_zero_iff)

theorem plausibilityChecks_fatal_iff_witness:
  "plausibilityChecks
     \<lparr>agencySize = 3, ownAddress = '''', dockerImage = ''arangodb'', rrPath = ''''\<rparr> = Checked
   \<and> exitCode (plausibilityChecks
       \<lparr>agencySize = 4, ownAddress = '''', dockerImage = '''', rrPath = ''''\<rparr>) = Some 1
   \<and> exitCode (plausibilityChecks
       \<lparr>agencySize = - 3, ownAddress = '''', dockerImage = '''', rrPath = ''''\<rparr>) = Some 1
   \<and> exitCode (plausibilityChecks
       \<lparr>agencySize = 1, ownAddress = '''', dockerImage = '''', rrPath = ''''\<rparr>) = Some 1
   \<and> exitCode (plausibilityChecks
       \<lparr>agencySize = 3, ownAddress = '''', dockerImage = ''arangodb'',
        rrPath = ''/usr/bin/rr''\<rparr>) = Some 1"
  using plausibilityChecks_fatal_iff
          [of "\<lparr>agencySize = 3, ownAddress = '''', dockerImage = ''arangodb'', rrPath = ''''\<rparr>"]
        plausibilityChecks_fatal_iff
          [of "\<lparr>agencySize = 4, ownAddress = '''', dockerImage = '''', rrPath = ''''\<rparr>"]
        plausibilityChecks_fatal_iff
          [of "\<lparr>agencySize = - 3, ownAddress = '''', dockerImage = '''', rrPath = ''''\<rparr>"]
        plausibilityChecks_fatal_iff
          [of "\<lparr>agencySize = 1, ownAddress = '''', dockerImage = '''', rrPath = ''''\<rparr>"]
        plausibilityChecks_fatal_iff
          [of "\<lparr>agencySize = 3, ownAddress = '''', dockerImage = ''arangodb'',
               rrPath = ''/usr/bin/rr''\<rparr>"]
  by simp

subsection \<open>C9: the self-peer is installed before the request is checked\<close>

text \<open>
  C9. When the leader's registry is empty, a hello that joins nobody still leaves the
  self-peer (port offset 0, with agent) as the only entry of the registry: a request
  that is not a POST (answered 200), and a POST whose body cannot be read, cannot be
  decoded, has an empty \<open>SlaveID\<close>, or is turned down by the same-dataDir check against
  the self-peer just installed (each answered 400). The trigger is not signalled.
\<close>

theorem hello_installs_self_first:
  assumes "state s \<noteq> stateSlave" and "Peers (myPeers s) = []"
    and "helloHandler findHost GetFreePortOffset s r = (s', resp)"
    and "Method r \<noteq> ''POST''
         \<or> (\<exists>e. Body r = ReadFailed e)
         \<or> (\<exists>e. Body r = ParseFailed e)
         \<or> (\<exists>req. Body r = Parsed req \<and> SlaveID req = '''')
         \<or> (\<exists>req. Body r = Parsed req \<and> SlaveID req \<noteq> '''' \<and> \<not> allowSameDataDir s
                \<and> (if SlaveAddress req = '''' then findHost (RemoteAddr r)
                    else SlaveAddress req) = findHost (Host r)
                \<and> DataDir_req req = DataDir_s s \<and> SlaveID req \<noteq> ID_s s)"
  shows "myPeers s' =
           \<lparr>Peers = [\<lparr>ID = ID_s s, Address = findHost (Host r),
                       Port = (if isNetHost s then MasterPort s else announcePort s),
                       PortOffset = 0, DataDir = DataDir_s s, HasAgent = True\<rparr>],
            AgencySize = AgencySize_s s\<rparr>
         \<and> StatusCode resp = (if Method r = ''POST'' then 400 else 200)
         \<and> runningTriggers s' = runningTriggers s"
proof -
  let ?s1 = "learnOwnAddress findHost s r"
  have peers1: "myPeers ?s1 =
           \<lparr>Peers = [\<lparr>ID = ID_s s, Address = findHost (Host r),
                       Port = (if isNetHost s then MasterPort s else announcePort s),
                       PortOffset = 0, DataDir = DataDir_s s, HasAgent = True\<rparr>],
            AgencySize = AgencySize_s s\<rparr>"
    using assms(2) by (rule learnOwnAddress_empty)
  have "s' = ?s1 \<and> StatusCode resp = (if Method r = ''POST'' then 400 else 200)"
  proof (cases "Method r = ''POST''")
    case False
    with assms(1,3) show ?thesis
      by (auto simp add: helloHandler_leader)
  next
    case True
    with assms(4) consider
        (rd) e where "Body r = ReadFailed e"
      | (parse) e where "Body r = ParseFailed e"
      | (noid) req where "Body r = Parsed req" "SlaveID req = ''''"
      | (dir) req where "Body r = Parsed req" "SlaveID req \<noteq> ''''" "\<not> allowSameDataDir s"
          "(if SlaveAddress req = '''' then findHost (RemoteAddr r) else SlaveAddress req)
             = findHost (Host r)"
          "DataDir_req req = DataDir_s s" "SlaveID req \<noteq> ID_s s"
      by blast
    then show ?thesis
    proof cases
      case rd
      with assms(1,3) True show ?thesis by (auto simp add: helloHandler_leader)
    next
      case parse
      with assms(1,3) True show ?thesis by (auto simp add: helloHandler_leader)
    next
      case noid
      with assms(1,3) True show ?thesis
        by (auto simp add: helloHandler_leader helloPost_def Let_def)
    next
      case dir
      then have "sameDirAsPeer (Peers (myPeers ?s1))
                   (if SlaveAddress req = '''' then findHost (RemoteAddr r)
                    else SlaveAddress req) req"
        by (simp add: peers1 sameDirAsPeer_def)
      with dir assms(1,3) True show ?thesis
        by (auto simp add: helloHandler_leader helloPost_def Let_def learnOwnAddress_frame)
    qed
  qed
  then show ?thesis
    by (simp add: peers1 learnOwnAddress_frame)
qed

theorem hello_installs_self_first_witness:
  "myPeers (fst (helloHandler exFindHost exFreePortOffset (exLeader 3) helloGET))
     = \<lparr>Peers = [mkPeer ''A'' ''10.0.0.1'' 0 True], AgencySize = 3\<rparr>
   \<and> StatusCode (snd (helloHandler exFindHost exFreePortOffset (exLeader 3) helloGET)) = 200
   \<and> myPeers (fst (helloHandler exFindHost exFreePortOffset (exLeader 3)
                      (helloBroken (ReadFailed ''unexpected EOF''))))
     = \<lparr>Peers = [mkPeer ''A'' ''10.0.0.1'' 0 True], AgencySize = 3\<rparr>
   \<and> StatusCode (snd (helloHandler exFindHost exFreePortOffset (exLeader 3)
                        (helloBroken (ReadFailed ''unexpected EOF'')))) = 400
   \<and> myPeers (fst (helloHandler exFindHost exFreePortOffset (exLeader 3)
                      (helloBroken (ParseFailed ''invalid character''))))
     = \<lparr>Peers = [mkPeer ''A'' ''10.0.0.1'' 0 True], AgencySize = 3\<rparr>
   \<and> StatusCode (snd (helloHandler exFindHost exFreePortOffset (exLeader 3)
                        (helloBroken (ParseFailed ''invalid character'')))) = 400
   \<and> myPeers (fst (helloHandler exFindHost exFreePortOffset (exLeader 3)
                      (helloPOST '''' ''10.0.0.2'' ''/data'')))
     = \<lparr>Peers = [mkPeer ''A'' ''10.0.0.1'' 0 True], AgencySize = 3\<rparr>
   \<and> StatusCode (snd (helloHandler exFindHost exFreePortOffset (exLeader 3)
                        (helloPOST '''' ''10.0.0.2'' ''/data''))) = 400
   \<and> myPeers (fst (helloHandler exFindHost exFreePortOffset (exLeader 3)
                      (helloPOST ''B'' ''10.0.0.1'' ''/data'')))
     = \<lparr>Peers = [mkPeer ''A'' ''10.0.0.1'' 0 True], AgencySize = 3\<rparr>
   \<and> StatusCode (snd (helloHandler exFindHost exFreePortOffset (exLeader 3)
                        (helloPOST ''B'' ''10.0.0.1'' ''/data''))) = 400"
proof -
  have leader: "state (exLeader 3) \<noteq> stateSlave"
    and empty: "Peers (myPeers (exLeader 3)) = []"
    by (simp_all add: exLeader_fields)
  have pair: "helloHandler exFindHost exFreePortOffset (exLeader 3) r =
      (fst (helloHandler exFindHost exFreePortOffset (exLeader 3) r),
       snd (helloHandler exFindHost exFreePortOffset (exLeader 3) r))" for r
    by simp
  note inst = hello_installs_self_first [OF leader empty pair]
  show ?thesis
    using inst [of helloGET] inst [of "helloBroken (ReadFailed ''unexpected EOF'')"]
      inst [of "helloBroken (ParseFailed ''invalid character'')"]
      inst [of "helloPOST '''' ''10.0.0.2'' ''/data''"]
      inst [of "helloPOST ''B'' ''10.0.0.1'' ''/data''"]
    by (simp add: example_requests exLeader_fields exFindHost_examples mkPeer_def)
qed

subsection \<open>C10: an empty SlaveAddress\<close>

text \<open>
  C10. For a hello POST with an empty \<open>SlaveAddress\<close> that the leader answers 200: when
  the id is new, the appended peer has the address that \<^verbatim>\<open>findHost\<close> derives from the
  remote address of the request; when the id is known, no entry is added and every
  entry of that id ends with the empty string as its address.
\<close>

theorem hello_empty_SlaveAddress:
  assumes "state s \<noteq> stateSlave" and "Method r = ''POST''" and "Body r = Parsed req"
    and "SlaveAddress req = ''''"
    and "helloHandler findHost GetFreePortOffset s r = (s', resp)"
    and "StatusCode resp = 200"
  shows "(PeerByID (myPeers (learnOwnAddress findHost s r)) (SlaveID req) = None \<longrightarrow>
            (\<exists>newPeer.
               Peers (myPeers s') = Peers (myPeers (learnOwnAddress findHost s r)) @ [newPeer]
               \<and> ID newPeer = SlaveID req \<and> Address newPeer = findHost (RemoteAddr r)))
       \<and> (PeerByID (myPeers (learnOwnAddress findHost s r)) (SlaveID req) \<noteq> None \<longrightarrow>
            map ID (Peers (myPeers s')) = map ID (Peers (myPeers (learnOwnAddress findHost s r)))
            \<and> (\<exists>p \<in> set (Peers (myPeers s')). ID p = SlaveID req)
            \<and> (\<forall>p \<in> set (Peers (myPeers s')). ID p = SlaveID req \<longrightarrow> Address p = ''''))"
proof -
  let ?s1 = "learnOwnAddress findHost s r"
  have post: "helloPost findHost GetFreePortOffset ?s1 (RemoteAddr r) req = (s', resp)"
    using assms(1,2,3,5) by (simp add: helloHandler_leader)
  then have acc: "accepted findHost ?s1 (RemoteAddr r) req"
    using assms(6) helloPost_accepted_iff [of findHost GetFreePortOffset ?s1 "RemoteAddr r" req]
    by simp
  show ?thesis
  proof (cases "PeerByID (myPeers ?s1) (SlaveID req) = None")
    case True
    with acc post assms(4) show ?thesis
      using helloPost_append [of findHost ?s1 "RemoteAddr r" req GetFreePortOffset]
      by (simp add: slaveAddrOf_def)
  next
    case False
    with acc post have s': "s' = ?s1\<lparr>myPeers := (myPeers ?s1)
        \<lparr>Peers := updatePeerData req (Peers (myPeers ?s1))\<rparr>\<rparr>"
      by (simp add: helloPost_update)
    have ids: "map ID (Peers (myPeers s')) = map ID (Peers (myPeers ?s1))"
      by (simp add: s' updatePeerData_frame)
    from False obtain q where "q \<in> set (Peers (myPeers ?s1))" "ID q = SlaveID req"
      by (auto simp add: PeerByID_None_iff)
    then have "SlaveID req \<in> set (map ID (Peers (myPeers s')))"
      unfolding ids by force
    then have ex: "\<exists>p \<in> set (Peers (myPeers s')). ID p = SlaveID req"
      by auto
    have "\<forall>p \<in> set (Peers (myPeers s')). ID p = SlaveID req \<longrightarrow> Address p = ''''"
      using assms(4) by (auto simp add: s' dest: updatePeerData_hit)
    with False ids ex show ?thesis by auto
  qed
qed

theorem hello_empty_SlaveAddress_witness:
  "map Address (Peers (myPeers exThree)) = [''10.0.0.1'', ''10.0.0.2'', ''10.0.0.3'']
   \<and> map Address (Peers (myPeers (fst (helloHandler exFindHost exFreePortOffset exThree
          (helloPOST ''B'' '''' ''/data2''))))) = [''10.0.0.1'', '''', ''10.0.0.3'']
   \<and> map Address (Peers (myPeers (fst (helloHandler exFindHost exFreePortOffset exThree
          (helloPOST ''D'' '''' ''/data''))))) =
       [''10.0.0.1'', ''10.0.0.2'', ''10.0.0.3'', ''10.0.0.9'']"
proof -
  have leader: "state exThree \<noteq> stateSlave"
    by (simp add: exThree_fields)
  have post: "Method (helloPOST i '''' d) = ''POST''"
    and body: "Body (helloPOST i '''' d) =
      Parsed \<lparr>SlaveID = i, SlaveAddress = '''', SlavePort = 4000, DataDir_req = d\<rparr>" for i d
    by (simp_all add: example_requests)
  have addr: "SlaveAddress \<lparr>SlaveID = i, SlaveAddress = '''', SlavePort = 4000,
      DataDir_req = d\<rparr> = ''''" for i d
    by simp
  have B: "StatusCode (snd (helloHandler exFindHost exFreePortOffset exThree
      (helloPOST ''B'' '''' ''/data2''))) = 200"
    and D: "StatusCode (snd (helloHandler exFindHost exFreePortOffset exThree
      (helloPOST ''D'' '''' ''/data''))) = 200"
    by (simp_all add: exThree_hello_empty_address)
  have pair: "helloHandler exFindHost exFreePortOffset exThree r =
      (fst (helloHandler exFindHost exFreePortOffset exThree r),
       snd (helloHandler exFindHost exFreePortOffset exThree r))" for r
    by simp
  show ?thesis
    using hello_empty_SlaveAddress [OF leader post body addr pair B]
      hello_empty_SlaveAddress [OF leader post body addr pair D]
    by (simp add: exThree_hello_empty_address exThree_learnOwnAddress exThree_fields
          mkPeer_def)
qed

end
